theory Spec2Isabelle
  imports Complex_Main
begin

section \<open>Validation of FederatedTypeConfig and KubeFedConfig (kubefed, pkg/apis/core/v1beta1/validation)\<close>

text \<open>
  A shallow embedding of \<^verbatim>\<open>validation.go\<close>. Every validator of the source is a pure
  function from an object and a field path to an ordered \<^verbatim>\<open>field.ErrorList\<close>; the
  embedding keeps the order of the checks and of the appended violations. Go strings are
  byte strings (\<^typ>\<open>string\<close>), \<^verbatim>\<open>int64\<close> values and \<^verbatim>\<open>time.Duration\<close>
  (nanoseconds) are integers: the source compares them and never adds or multiplies two
  of them as integers, so no wrap-around can occur. The one product of the source is
  formed in \<^verbatim>\<open>float64\<close>; it is modelled with the rounding of that type.
\<close>

subsection \<open>Field paths and violations (k8s.io/apimachinery field package)\<close>

text \<open>
  A \<^verbatim>\<open>field.Path\<close> is the chain of its elements from the root: a child name, a
  sequence index or a map key. \<^verbatim>\<open>validation.go\<close> builds paths with
  \<^verbatim>\<open>NewPath\<close> and \<^verbatim>\<open>Child\<close> only.
\<close>

datatype PathElem = Named string | Indexed nat | Keyed string

type_synonym Path = "PathElem list"

definition NewPath :: "string \<Rightarrow> Path" where
  "NewPath name = [Named name]"

definition Child :: "Path \<Rightarrow> string \<Rightarrow> Path" where
  "Child p name = p @ [Named name]"

text \<open>
  The offending value of a violation is an \<^verbatim>\<open>interface{}\<close>; the source passes
  strings, \<^verbatim>\<open>int64\<close> values and \<^verbatim>\<open>metav1.Duration\<close> values.
\<close>

datatype BadValue = StrVal string | Int64Val int | DurationVal int

text \<open>
  One constructor for each of \<^verbatim>\<open>field.Required(path, detail)\<close>,
  \<^verbatim>\<open>field.Invalid(path, value, detail)\<close>,
  \<^verbatim>\<open>field.NotSupported(path, value, validValues)\<close> and
  \<^verbatim>\<open>field.Duplicate(path, value)\<close>.
\<close>

datatype Error =
    Required Path string
  | Invalid Path BadValue string
  | NotSupported Path BadValue "string list"
  | Duplicate Path BadValue

datatype ErrorType =
  ErrorTypeRequired | ErrorTypeInvalid | ErrorTypeNotSupported | ErrorTypeDuplicate

fun ErrType :: "Error \<Rightarrow> ErrorType" where
  "ErrType (Required p d) = ErrorTypeRequired"
| "ErrType (Invalid p v d) = ErrorTypeInvalid"
| "ErrType (NotSupported p v a) = ErrorTypeNotSupported"
| "ErrType (Duplicate p v) = ErrorTypeDuplicate"

fun ErrField :: "Error \<Rightarrow> Path" where
  "ErrField (Required p d) = p"
| "ErrField (Invalid p v d) = p"
| "ErrField (NotSupported p v a) = p"
| "ErrField (Duplicate p v) = p"

text \<open>The violations of a list that lie on one path, in the order of the list.\<close>

definition onPath :: "Path \<Rightarrow> Error list \<Rightarrow> Error list" where
  "onPath p errs = filter (\<lambda>e. ErrField e = p) errs"

text \<open>The violations of a list whose path lies below a prefix.\<close>

definition underPath :: "Path \<Rightarrow> Error list \<Rightarrow> Error list" where
  "underPath p errs = filter (\<lambda>e. take (length p) (ErrField e) = p) errs"

text \<open>A violation without the offending value it echoes: its type, path and detail.\<close>

fun eraseBadValue :: "Error \<Rightarrow> Error" where
  "eraseBadValue (Required p d) = Required p d"
| "eraseBadValue (Invalid p v d) = Invalid p (StrVal []) d"
| "eraseBadValue (NotSupported p v a) = NotSupported p (StrVal []) a"
| "eraseBadValue (Duplicate p v) = Duplicate p (StrVal [])"

subsection \<open>The objects under validation (package v1beta1)\<close>

record APIResource =
  Group :: string
  Version :: string
  Kind :: string
  PluralName :: string
  Scope :: string

record FederatedTypeConfigSpec =
  TargetType :: APIResource
  Propagation :: string
  FederatedType :: APIResource
  StatusType :: "APIResource option"
  StatusCollection :: "string option"

record FederatedTypeConfigStatus =
  ObservedGeneration :: int
  PropagationController :: string
  StatusController :: "string option"

record FederatedTypeConfig =
  Name :: string
  Spec :: FederatedTypeConfigSpec
  Status :: FederatedTypeConfigStatus

record DurationConfig =
  AvailableDelay :: int
  UnavailableDelay :: int

record LeaderElectConfig =
  LeaseDuration :: int
  RenewDeadline :: int
  RetryPeriod :: int
  ResourceLock :: string

record FeatureGatesConfig =
  GateName :: string
  Configuration :: string

record ClusterHealthCheckConfig =
  PeriodSeconds :: int
  FailureThreshold :: int
  SuccessThreshold :: int
  TimeoutSeconds :: int

record SyncControllerConfig =
  AdoptResources :: string

record KubeFedConfigSpec =
  ConfigScope :: string
  ControllerDuration :: DurationConfig
  LeaderElect :: LeaderElectConfig
  FeatureGates :: "FeatureGatesConfig list"
  ClusterHealthCheck :: ClusterHealthCheckConfig
  SyncController :: SyncControllerConfig

record KubeFedConfig =
  ConfigName :: string
  ConfigSpec :: KubeFedConfigSpec

subsection \<open>Collaborators outside the source file\<close>

text \<open>
  \<^verbatim>\<open>validation.go\<close> calls into libraries that are not part of it: the DNS syntax
  predicates of \<^verbatim>\<open>k8s.io/apimachinery\<close> (each returns the list of its error
  messages, empty when the value is well formed), \<^verbatim>\<open>ValidateNonnegativeField\<close>
  of the same library, the Unicode-aware \<^verbatim>\<open>strings.ToLower\<close>, the name derivation
  \<^verbatim>\<open>typeconfig.GroupQualifiedName\<close> applied to the target type, and the constant
  \<^verbatim>\<open>leaderelection.JitterFactor\<close>, given by its exact value. The Go language
  leaves to the implementation what the conversion of a \<^verbatim>\<open>float64\<close> to
  \<^verbatim>\<open>int64\<close> gives when the value does not fit; this result is the last
  collaborator. The validators take them as one argument, so every theorem below holds
  for any implementation of them.
\<close>

record Lib =
  IsDNS1123Subdomain :: "string \<Rightarrow> string list"
  IsDNS1035Label :: "string \<Rightarrow> string list"
  ValidateNonnegativeField :: "int \<Rightarrow> Path \<Rightarrow> Error list"
  ToLower :: "string \<Rightarrow> string"
  GroupQualifiedName :: "APIResource \<Rightarrow> string"
  JitterFactor :: rat
  Float64ToInt64OutOfRange :: "rat \<Rightarrow> int"

text \<open>
  Modelled from the spec: the enumeration constants of \<^verbatim>\<open>v1beta1\<close>,
  \<^verbatim>\<open>apiextensions/v1beta1\<close> and \<^verbatim>\<open>features\<close>, whose declarations are not in
  the source file. The spec gives the scopes as Cluster and Namespace, the toggles as
  Enabled and Disabled, the controller states as Running and NotRunning and the resource
  locks as ConfigMaps and Endpoints; the known feature identifiers are the four constants
  the source lists, taken with their Go names as values. No general theorem below depends on
  the spelling of any of them.
\<close>

definition ClusterScoped :: string where "ClusterScoped = ''Cluster''"
definition NamespaceScoped :: string where "NamespaceScoped = ''Namespace''"
definition PropagationEnabled :: string where "PropagationEnabled = ''Enabled''"
definition PropagationDisabled :: string where "PropagationDisabled = ''Disabled''"
definition StatusCollectionEnabled :: string where "StatusCollectionEnabled = ''Enabled''"
definition StatusCollectionDisabled :: string where "StatusCollectionDisabled = ''Disabled''"
definition ControllerStatusRunning :: string where "ControllerStatusRunning = ''Running''"
definition ControllerStatusNotRunning :: string where "ControllerStatusNotRunning = ''NotRunning''"
definition ConfigMapsResourceLock :: string where "ConfigMapsResourceLock = ''ConfigMaps''"
definition EndpointsResourceLock :: string where "EndpointsResourceLock = ''Endpoints''"
definition ConfigurationEnabled :: string where "ConfigurationEnabled = ''Enabled''"
definition ConfigurationDisabled :: string where "ConfigurationDisabled = ''Disabled''"
definition AdoptResourcesEnabled :: string where "AdoptResourcesEnabled = ''Enabled''"
definition AdoptResourcesDisabled :: string where "AdoptResourcesDisabled = ''Disabled''"
definition PushReconciler :: string where "PushReconciler = ''PushReconciler''"
definition SchedulerPreferences :: string where "SchedulerPreferences = ''SchedulerPreferences''"
definition CrossClusterServiceDiscovery :: string where
  "CrossClusterServiceDiscovery = ''CrossClusterServiceDiscovery''"
definition FederatedIngress :: string where "FederatedIngress = ''FederatedIngress''"

text \<open>
  Modelled from the spec: \<^verbatim>\<open>obj.GetTargetType()\<close>, a method of \<^verbatim>\<open>v1beta1\<close>
  that is not in the source file. The spec recomputes the expected name from the
  TargetType descriptor of the object.
\<close>

definition GetTargetType :: "FederatedTypeConfig \<Rightarrow> APIResource" where
  "GetTargetType obj = TargetType (Spec obj)"

subsection \<open>Go string helpers\<close>

text \<open>
  \<^verbatim>\<open>strings.Split(s, sep)\<close> for a separator of one byte: the pieces between the
  separators, so an input with n separators gives n + 1 pieces and the empty string
  gives one empty piece.
\<close>

fun Split :: "string \<Rightarrow> char \<Rightarrow> string list" where
  "Split [] sep = [[]]"
| "Split (c # cs) sep =
     (if c = sep then [] # Split cs sep
      else (case Split cs sep of
              [] \<Rightarrow> [[c]]
            | piece # pieces \<Rightarrow> (c # piece) # pieces))"

fun Join :: "string list \<Rightarrow> string \<Rightarrow> string" where
  "Join [] sep = []"
| "Join [x] sep = x"
| "Join (x # y # ys) sep = x @ sep @ Join (y # ys) sep"

subsection \<open>Go float64 arithmetic\<close>

text \<open>
  A finite \<^verbatim>\<open>float64\<close> is modelled by the rational number it denotes. A
  \<^verbatim>\<open>float64\<close> has a significand of 53 binary digits: the values with
  \<open>2^e \<le> |x| < 2^(e+1)\<close> are the multiples of \<open>2^(e-52)\<close>. Every conversion
  to \<^verbatim>\<open>float64\<close> and every operation on it gives the \<^verbatim>\<open>float64\<close>
  nearest to the exact result, and of two nearest ones the one with the even significand.
  The exponent range of the type is not modelled (no subnormal numbers, no infinities):
  in the jitter test of \<^verbatim>\<open>ValidateKubeFedConfig\<close> every value is zero or has a
  magnitude between 1 and \<open>2^64\<close> for a jitter factor between 1 and 2.
\<close>

type_synonym float64 = rat

text \<open>The number of binary digits of a positive integer.\<close>

function bitLength :: "int \<Rightarrow> int" where
  "bitLength n = (if n \<le> 0 then 0 else 1 + bitLength (n div 2))"
  by pat_completeness auto
termination
  by (relation "measure nat") auto

declare bitLength.simps [simp del]

text \<open>The binary exponent of a positive number \<open>x\<close>: the \<open>e\<close> with \<open>2^e \<le> x < 2^(e+1)\<close>.\<close>

definition ilog2 :: "rat \<Rightarrow> int" where
  "ilog2 x = (if 1 \<le> x then bitLength \<lfloor>x\<rfloor> - 1 else - bitLength (\<lceil>1 / x\<rceil> - 1))"

definition pow2 :: "int \<Rightarrow> rat" where
  "pow2 e = (if 0 \<le> e then 2 ^ nat e else 1 / 2 ^ nat (- e))"

text \<open>The integer nearest to \<open>y\<close>, the even one of two nearest.\<close>

definition roundHalfEven :: "rat \<Rightarrow> int" where
  "roundHalfEven y =
     (let f = \<lfloor>y\<rfloor>; d = y - of_int f in
      if d < 1 / 2 then f else if 1 / 2 < d then f + 1 else if even f then f else f + 1)"

definition roundFloat64 :: "rat \<Rightarrow> float64" where
  "roundFloat64 x =
     (if x = 0 then 0
      else (let q = pow2 (ilog2 \<bar>x\<bar> - 52) in of_int (roundHalfEven (x / q)) * q))"

text \<open>
  The conversion \<^verbatim>\<open>float64(n)\<close> of an \<^verbatim>\<open>int64\<close>, the conversion of
  an untyped constant to \<^verbatim>\<open>float64\<close>, and the product of two
  \<^verbatim>\<open>float64\<close> values.
\<close>

definition int64ToFloat64 :: "int \<Rightarrow> float64" where
  "int64ToFloat64 n = roundFloat64 (of_int n)"

definition float64Const :: "rat \<Rightarrow> float64" where
  "float64Const c = roundFloat64 c"

definition float64Mul :: "float64 \<Rightarrow> float64 \<Rightarrow> float64" where
  "float64Mul x y = roundFloat64 (x * y)"

text \<open>
  Go converts a \<^verbatim>\<open>float64\<close> to an integer type by discarding the fraction, that
  is, by rounding towards zero. When the result does not fit \<^verbatim>\<open>int64\<close> the
  value of the conversion depends on the implementation.
\<close>

definition truncToZero :: "rat \<Rightarrow> int" where
  "truncToZero x = (if 0 \<le> x then \<lfloor>x\<rfloor> else \<lceil>x\<rceil>)"

definition float64ToInt64 :: "Lib \<Rightarrow> float64 \<Rightarrow> int" where
  "float64ToInt64 lib x =
     (let t = truncToZero x in
      if - (2 ^ 63) \<le> t \<and> t < 2 ^ 63 then t else Float64ToInt64OutOfRange lib x)"

text \<open>
  The right-hand side of the jitter test,
  \<^verbatim>\<open>time.Duration(float64(d) * leaderelection.JitterFactor)\<close>.
\<close>

abbreviation jitterDuration :: "Lib \<Rightarrow> int \<Rightarrow> int" where
  "jitterDuration lib d \<equiv>
     float64ToInt64 lib (float64Mul (int64ToFloat64 d) (float64Const (JitterFactor lib)))"

subsection \<open>The validators\<close>

definition federatedTypeConfigNameErrorMsg :: string where
  "federatedTypeConfigNameErrorMsg =
     ''name must be '' @ [CHR 0x27] @ ''TARGET_PLURAL_NAME(.TARGET_GROUP_NAME)'' @ [CHR 0x27]"

definition domainWithAtLeastOneDot :: string where
  "domainWithAtLeastOneDot = ''should be a domain with at least one dot''"

text \<open>
  The loop of \<^verbatim>\<open>validateEnumStrings\<close> over the accepted values: it leaves the
  function with the empty list at the first value equal to the input.
\<close>

fun acceptedLoop :: "string list \<Rightarrow> string \<Rightarrow> bool" where
  "acceptedLoop [] v = False"
| "acceptedLoop (a # as) v = (if a = v then True else acceptedLoop as v)"

definition validateEnumStrings :: "Path \<Rightarrow> string \<Rightarrow> string list \<Rightarrow> Error list" where
  "validateEnumStrings fldPath v accepted =
     (if v = [] then [Required fldPath []]
      else if acceptedLoop accepted v then []
      else [NotSupported fldPath (StrVal v) accepted])"

definition validateGreaterThan0 :: "Path \<Rightarrow> int \<Rightarrow> Error list" where
  "validateGreaterThan0 path v =
     (let errs = [] in
      let errs = (if v \<le> 0 then errs @ [Invalid path (Int64Val v) ''should be greater than 0'']
                  else errs)
      in errs)"

definition ValidateAPIResource :: "Lib \<Rightarrow> APIResource \<Rightarrow> Path \<Rightarrow> Error list" where
  "ValidateAPIResource lib obj fldPath =
     (let allErrs = [] in
      let allErrs =
        (if Group obj \<noteq> [] then
           (let errs = IsDNS1123Subdomain lib (Group obj) in
            if errs \<noteq> [] then
              allErrs @ [Invalid (Child fldPath ''group'') (StrVal (Group obj)) (Join errs '','')]
            else allErrs)
         else allErrs) in
      let allErrs =
        (if Version obj = [] then allErrs @ [Required (Child fldPath ''version'') []]
         else (let errs = IsDNS1035Label lib (Version obj) in
               if errs \<noteq> [] then
                 allErrs @ [Invalid (Child fldPath ''version'') (StrVal (Version obj)) (Join errs '','')]
               else allErrs)) in
      let allErrs =
        (if Kind obj = [] then allErrs @ [Required (Child fldPath ''kind'') []]
         else (let errs = IsDNS1035Label lib (ToLower lib (Kind obj)) in
               if errs \<noteq> [] then
                 allErrs @ [Invalid (Child fldPath ''kind'') (StrVal (Kind obj)) (Join errs '','')]
               else allErrs)) in
      let allErrs =
        (if PluralName obj = [] then allErrs @ [Required (Child fldPath ''pluralName'') []]
         else (let errs = IsDNS1035Label lib (PluralName obj) in
               if errs \<noteq> [] then
                 allErrs @ [Invalid (Child fldPath ''pluralName'') (StrVal (PluralName obj))
                              (Join errs '','')]
               else allErrs)) in
      let allErrs =
        allErrs @ validateEnumStrings (Child fldPath ''scope'') (Scope obj)
                    [ClusterScoped, NamespaceScoped]
      in allErrs)"

definition ValidateFederatedAPIResource :: "Lib \<Rightarrow> APIResource \<Rightarrow> Path \<Rightarrow> Error list" where
  "ValidateFederatedAPIResource lib fedType fldPath =
     (let allErrs = [] in
      let allErrs =
        (if length (Group fedType) = 0 then allErrs @ [Required (Child fldPath ''group'') []]
         else if length (Split (Group fedType) (CHR ''.'')) < 2 then
           allErrs @ [Invalid (Child fldPath ''group'') (StrVal (Group fedType))
                        domainWithAtLeastOneDot]
         else allErrs) in
      let allErrs = allErrs @ ValidateAPIResource lib fedType fldPath
      in allErrs)"

definition ValidateStatusAPIResource :: "Lib \<Rightarrow> APIResource \<Rightarrow> Path \<Rightarrow> Error list" where
  "ValidateStatusAPIResource lib statusType fldPath =
     ValidateFederatedAPIResource lib statusType fldPath"

definition ValidateFederatedTypeConfigName :: "Lib \<Rightarrow> FederatedTypeConfig \<Rightarrow> Error list" where
  "ValidateFederatedTypeConfigName lib obj =
     (let expectedName = GroupQualifiedName lib (GetTargetType obj) in
      if expectedName \<noteq> Name obj then
        [Invalid (NewPath ''name'') (StrVal (Name obj)) federatedTypeConfigNameErrorMsg]
      else [])"

definition ValidateFederatedTypeConfigSpec ::
  "Lib \<Rightarrow> FederatedTypeConfigSpec \<Rightarrow> Path \<Rightarrow> Error list" where
  "ValidateFederatedTypeConfigSpec lib spec fldPath =
     (let allErrs = ValidateAPIResource lib (TargetType spec) (Child fldPath ''targetType'') in
      let allErrs =
        allErrs @ validateEnumStrings (Child fldPath ''propagation'') (Propagation spec)
                    [PropagationEnabled, PropagationDisabled] in
      let allErrs =
        allErrs @ ValidateFederatedAPIResource lib (FederatedType spec)
                    (Child fldPath ''federatedType'') in
      let allErrs =
        (case StatusType spec of
           Some statusType \<Rightarrow>
             allErrs @ ValidateStatusAPIResource lib statusType (Child fldPath ''statusType'')
         | None \<Rightarrow> allErrs) in
      let allErrs =
        (case StatusCollection spec of
           Some statusCollection \<Rightarrow>
             allErrs @ validateEnumStrings (Child fldPath ''statusCollection'') statusCollection
                         [StatusCollectionEnabled, StatusCollectionDisabled]
         | None \<Rightarrow> allErrs)
      in allErrs)"

definition ValidateFederatedTypeConfigStatus ::
  "Lib \<Rightarrow> FederatedTypeConfigStatus \<Rightarrow> Path \<Rightarrow> Error list" where
  "ValidateFederatedTypeConfigStatus lib status fldPath =
     (let allErrs = [] in
      let allErrs =
        allErrs @ ValidateNonnegativeField lib (ObservedGeneration status)
                    (Child fldPath ''observedGeneration'') in
      let allErrs =
        allErrs @ validateEnumStrings (Child fldPath ''propagationController'')
                    (PropagationController status)
                    [ControllerStatusRunning, ControllerStatusNotRunning] in
      let allErrs =
        (case StatusController status of
           Some statusController \<Rightarrow>
             allErrs @ validateEnumStrings (Child fldPath ''statusController'') statusController
                         [ControllerStatusRunning, ControllerStatusNotRunning]
         | None \<Rightarrow> allErrs)
      in allErrs)"

definition ValidateFederatedTypeConfig :: "Lib \<Rightarrow> FederatedTypeConfig \<Rightarrow> bool \<Rightarrow> Error list" where
  "ValidateFederatedTypeConfig lib obj statusSubResource =
     (if \<not> statusSubResource then
        (let allErrs = ValidateFederatedTypeConfigName lib obj in
         let allErrs = allErrs @ ValidateFederatedTypeConfigSpec lib (Spec obj) (NewPath ''spec'')
         in allErrs)
      else ValidateFederatedTypeConfigStatus lib (Status obj) (NewPath ''status''))"

text \<open>
  The loop of \<^verbatim>\<open>ValidateKubeFedConfig\<close> over the feature gates, with the two
  variables it updates: the map \<^verbatim>\<open>existingNames\<close> of the names seen so far and
  the violations \<^verbatim>\<open>allErrs\<close>. A name that is already a key of the map appends one
  Duplicate violation and goes on to the next gate (\<^verbatim>\<open>continue\<close>).
\<close>

fun gatesLoop ::
  "Path \<Rightarrow> (string \<rightharpoonup> bool) \<Rightarrow> Error list \<Rightarrow> FeatureGatesConfig list \<Rightarrow> Error list" where
  "gatesLoop gatesPath existingNames allErrs [] = allErrs"
| "gatesLoop gatesPath existingNames allErrs (gate # gates) =
     (case existingNames (GateName gate) of
        Some ok \<Rightarrow>
          gatesLoop gatesPath existingNames
            (allErrs @ [Duplicate (Child gatesPath ''name'') (StrVal (GateName gate))]) gates
      | None \<Rightarrow>
          (let existingNames = existingNames(GateName gate \<mapsto> True) in
           let allErrs =
             allErrs @ validateEnumStrings (Child gatesPath ''name'') (GateName gate)
                         [PushReconciler, SchedulerPreferences,
                          CrossClusterServiceDiscovery, FederatedIngress] in
           let allErrs =
             allErrs @ validateEnumStrings (Child gatesPath ''configuration'') (Configuration gate)
                         [ConfigurationEnabled, ConfigurationDisabled]
           in gatesLoop gatesPath existingNames allErrs gates))"

text \<open>
  \<^verbatim>\<open>ValidateKubeFedConfig\<close>; the log line at its start has no effect on the result.
\<close>

definition ValidateKubeFedConfig :: "Lib \<Rightarrow> KubeFedConfig \<Rightarrow> Error list" where
  "ValidateKubeFedConfig lib kubeFedConfig =
     (let allErrs = [] in
      let spec = ConfigSpec kubeFedConfig in
      let specPath = NewPath ''spec'' in
      let allErrs =
        allErrs @ validateEnumStrings (Child specPath ''scope'') (ConfigScope spec)
                    [ClusterScoped, NamespaceScoped] in
      let duration = ControllerDuration spec in
      let durationPath = Child specPath ''controllerDuration'' in
      let allErrs =
        allErrs @ validateGreaterThan0 (Child durationPath ''availableDelay'')
                    (AvailableDelay duration) in
      let allErrs =
        allErrs @ validateGreaterThan0 (Child durationPath ''unavailableDelay'')
                    (UnavailableDelay duration) in
      let elect = LeaderElect spec in
      let electPath = Child specPath ''leaderElect'' in
      let allErrs =
        allErrs @ validateGreaterThan0 (Child electPath ''leaseDuration'') (LeaseDuration elect) in
      let allErrs =
        allErrs @ validateGreaterThan0 (Child electPath ''renewDeadline'') (RenewDeadline elect) in
      let allErrs =
        allErrs @ validateGreaterThan0 (Child electPath ''retryPeriod'') (RetryPeriod elect) in
      let allErrs =
        (if LeaseDuration elect \<le> RenewDeadline elect then
           allErrs @ [Invalid (Child electPath ''leaseDuration'') (DurationVal (LeaseDuration elect))
                        ''leaseDuration must be greater than renewDeadline'']
         else allErrs) in
      let allErrs =
        (if RenewDeadline elect
              \<le> float64ToInt64 lib
                  (float64Mul (int64ToFloat64 (RetryPeriod elect))
                     (float64Const (JitterFactor lib))) then
           allErrs @ [Invalid (Child electPath ''renewDeadline'') (DurationVal (RenewDeadline elect))
                        ''renewDeadline must be greater than retryPeriod*JitterFactor'']
         else allErrs) in
      let allErrs =
        allErrs @ validateEnumStrings (Child electPath ''resourceLock'') (ResourceLock elect)
                    [ConfigMapsResourceLock, EndpointsResourceLock] in
      let gates = FeatureGates spec in
      let gatesPath = Child specPath ''featureGates'' in
      let existingNames = Map.empty in
      let allErrs = gatesLoop gatesPath existingNames allErrs gates in
      let health = ClusterHealthCheck spec in
      let healthPath = Child specPath ''clusterHealthCheck'' in
      let allErrs =
        allErrs @ validateGreaterThan0 (Child healthPath ''periodSeconds'') (PeriodSeconds health) in
      let allErrs =
        allErrs @ validateGreaterThan0 (Child healthPath ''failureThreshold'')
                    (FailureThreshold health) in
      let allErrs =
        allErrs @ validateGreaterThan0 (Child healthPath ''successThreshold'')
                    (SuccessThreshold health) in
      let allErrs =
        allErrs @ validateGreaterThan0 (Child healthPath ''timeoutSeconds'')
                    (TimeoutSeconds health) in
      let sync = SyncController spec in
      let syncPath = Child specPath ''syncController'' in
      let allErrs =
        allErrs @ validateEnumStrings (Child syncPath ''adoptResources'') (AdoptResources sync)
                    [AdoptResourcesEnabled, AdoptResourcesDisabled]
      in allErrs)"

text \<open>
  \<^verbatim>\<open>ValidateKubeFedCluster\<close> never reads its argument, so the embedding accepts an
  object of any type.
\<close>

definition ValidateKubeFedCluster :: "'a \<Rightarrow> Error list" where
  "ValidateKubeFedCluster object = (let allErrs = [] in allErrs)"

subsection \<open>An instance of the collaborators, for evaluation\<close>

text \<open>
  The syntax rules of \<^verbatim>\<open>k8s.io/apimachinery/pkg/util/validation\<close>: a DNS-1123
  label is made of lower-case letters, digits and hyphens and starts and ends with a
  letter or digit; a DNS-1123 subdomain is a sequence of such labels separated by dots, of
  at most 253 bytes; a DNS-1035 label is a DNS-1123 label of at most 63 bytes that starts
  with a letter. The messages are shortened. They are used only to evaluate the
  validators on concrete objects. The jitter factor of
  \<^verbatim>\<open>k8s.io/client-go/tools/leaderelection\<close> is the constant 1.2, and on
  amd64 the conversion of a \<^verbatim>\<open>float64\<close> that does not fit
  \<^verbatim>\<open>int64\<close> gives the smallest \<^verbatim>\<open>int64\<close>.
\<close>

definition lowerLetters :: string where
  "lowerLetters = ''abcdefghijklmnopqrstuvwxyz''"

definition upperLetters :: string where
  "upperLetters = ''ABCDEFGHIJKLMNOPQRSTUVWXYZ''"

definition decimalDigits :: string where
  "decimalDigits = ''0123456789''"

definition isAlnum :: "char \<Rightarrow> bool" where
  "isAlnum c = (c \<in> set lowerLetters \<or> c \<in> set decimalDigits)"

definition dns1123LabelOK :: "string \<Rightarrow> bool" where
  "dns1123LabelOK s =
     (s \<noteq> [] \<and> isAlnum (hd s) \<and> isAlnum (last s)
      \<and> list_all (\<lambda>c. isAlnum c \<or> c = CHR ''-'') s)"

definition dns1123Subdomain :: "string \<Rightarrow> string list" where
  "dns1123Subdomain v =
     (if 253 < length v then [''must be no more than 253 characters''] else [])
     @ (if list_all dns1123LabelOK (Split v (CHR ''.'')) then []
        else [''a lowercase RFC 1123 subdomain must consist of lower case alphanumeric characters''])"

definition dns1035Label :: "string \<Rightarrow> string list" where
  "dns1035Label v =
     (if 63 < length v then [''must be no more than 63 characters''] else [])
     @ (if dns1123LabelOK v \<and> hd v \<in> set lowerLetters then []
        else [''a DNS-1035 label must consist of lower case alphanumeric characters''])"

definition nonnegativeField :: "int \<Rightarrow> Path \<Rightarrow> Error list" where
  "nonnegativeField v fldPath =
     (if v < 0 then [Invalid fldPath (Int64Val v) ''must be greater than or equal to 0'']
      else [])"

text \<open>The ASCII part of \<^verbatim>\<open>strings.ToLower\<close>; other bytes are left as they are.\<close>

definition asciiToLower :: "string \<Rightarrow> string" where
  "asciiToLower s =
     map (\<lambda>c. case map_of (zip upperLetters lowerLetters) c of Some l \<Rightarrow> l | None \<Rightarrow> c) s"

text \<open>
  Modelled from the spec: \<^verbatim>\<open>typeconfig.GroupQualifiedName\<close>, which is not in the
  source file: the plural name, followed by a dot and the group when the group is not the
  empty core group.
\<close>

definition groupQualifiedName :: "APIResource \<Rightarrow> string" where
  "groupQualifiedName r =
     (if Group r = [] then PluralName r else PluralName r @ ''.'' @ Group r)"

definition k8s :: Lib where
  "k8s = \<lparr>IsDNS1123Subdomain = dns1123Subdomain,
           IsDNS1035Label = dns1035Label,
           ValidateNonnegativeField = nonnegativeField,
           ToLower = asciiToLower,
           GroupQualifiedName = groupQualifiedName,
           JitterFactor = 12 / 10,
           Float64ToInt64OutOfRange = (\<lambda>x. - (2 ^ 63))\<rparr>"

subsection \<open>Example objects\<close>

definition podResource :: APIResource where
  "podResource = \<lparr>Group = [], Version = ''v1'', Kind = ''Pod'', PluralName = ''pods'',
                    Scope = NamespaceScoped\<rparr>"

definition federatedPodResource :: APIResource where
  "federatedPodResource =
     \<lparr>Group = ''types.kubefed.io'', Version = ''v1beta1'', Kind = ''FederatedPod'',
      PluralName = ''federatedpods'', Scope = NamespaceScoped\<rparr>"

definition podTypeConfig :: FederatedTypeConfig where
  "podTypeConfig =
     \<lparr>Name = ''pods'',
      Spec = \<lparr>TargetType = podResource, Propagation = PropagationEnabled,
               FederatedType = federatedPodResource, StatusType = None,
               StatusCollection = None\<rparr>,
      Status = \<lparr>ObservedGeneration = 1, PropagationController = ControllerStatusRunning,
                 StatusController = None\<rparr>\<rparr>"

definition second :: int where
  "second = 1000000000"

definition leaderElect :: LeaderElectConfig where
  "leaderElect = \<lparr>LeaseDuration = 15 * second, RenewDeadline = 10 * second,
                    RetryPeriod = 2 * second, ResourceLock = ConfigMapsResourceLock\<rparr>"

definition kubeFedConfig :: KubeFedConfig where
  "kubeFedConfig =
     \<lparr>ConfigName = ''kubefed'',
      ConfigSpec =
        \<lparr>ConfigScope = ClusterScoped,
         ControllerDuration = \<lparr>AvailableDelay = 20 * second, UnavailableDelay = 60 * second\<rparr>,
         LeaderElect = leaderElect,
         FeatureGates = [\<lparr>GateName = PushReconciler, Configuration = ConfigurationEnabled\<rparr>],
         ClusterHealthCheck = \<lparr>PeriodSeconds = 10, FailureThreshold = 3,
                                SuccessThreshold = 1, TimeoutSeconds = 3\<rparr>,
         SyncController = \<lparr>AdoptResources = AdoptResourcesEnabled\<rparr>\<rparr>\<rparr>"

text \<open>The example configuration with another leader election and other feature gates.\<close>

definition withLeaderElect :: "LeaderElectConfig \<Rightarrow> KubeFedConfig" where
  "withLeaderElect elect =
     kubeFedConfig\<lparr>ConfigSpec := (ConfigSpec kubeFedConfig)\<lparr>LeaderElect := elect\<rparr>\<rparr>"

definition withFeatureGates :: "FeatureGatesConfig list \<Rightarrow> KubeFedConfig" where
  "withFeatureGates gates =
     kubeFedConfig\<lparr>ConfigSpec := (ConfigSpec kubeFedConfig)\<lparr>FeatureGates := gates\<rparr>\<rparr>"

subsection \<open>The feature-gate rule in the words of the specification\<close>

text \<open>
  What the specification asks of one entry of the FeatureGates sequence, given the names
  seen before it: a name already seen gives one Duplicate violation and nothing else; a
  name seen for the first time is checked against the known feature identifiers and its
  Configuration against Enabled and Disabled.
\<close>

definition knownFeatures :: "string list" where
  "knownFeatures =
     [PushReconciler, SchedulerPreferences, CrossClusterServiceDiscovery, FederatedIngress]"

definition entryViolations :: "Path \<Rightarrow> string set \<Rightarrow> FeatureGatesConfig \<Rightarrow> Error list" where
  "entryViolations gatesPath seen gate =
     (if GateName gate \<in> seen then
        [Duplicate (Child gatesPath ''name'') (StrVal (GateName gate))]
      else validateEnumStrings (Child gatesPath ''name'') (GateName gate) knownFeatures
           @ validateEnumStrings (Child gatesPath ''configuration'') (Configuration gate)
               [ConfigurationEnabled, ConfigurationDisabled])"

text \<open>The names of the entries before position \<open>i\<close>.\<close>

definition namesBefore :: "FeatureGatesConfig list \<Rightarrow> nat \<Rightarrow> string set" where
  "namesBefore gates i = set (map GateName (take i gates))"

text \<open>The violations of the entry at position \<open>i\<close>, and of the whole sequence in declared order.\<close>

definition gateViolations :: "Path \<Rightarrow> FeatureGatesConfig list \<Rightarrow> nat \<Rightarrow> Error list" where
  "gateViolations gatesPath gates i = entryViolations gatesPath (namesBefore gates i) (gates ! i)"

definition featureGatesViolations :: "Path \<Rightarrow> FeatureGatesConfig list \<Rightarrow> Error list" where
  "featureGatesViolations gatesPath gates =
     concat (map (gateViolations gatesPath gates) [0..<length gates])"

text \<open>The positions of the entries whose name occurs at an earlier position.\<close>

definition repeatedPositions :: "FeatureGatesConfig list \<Rightarrow> nat list" where
  "repeatedPositions gates =
     filter (\<lambda>i. GateName (gates ! i) \<in> namesBefore gates i) [0..<length gates]"

text \<open>The violations of one type, and the sequence indices a path mentions.\<close>

definition ofType :: "ErrorType \<Rightarrow> Error list \<Rightarrow> Error list" where
  "ofType t errs = filter (\<lambda>e. ErrType e = t) errs"

fun pathIndices :: "Path \<Rightarrow> nat list" where
  "pathIndices [] = []"
| "pathIndices (Indexed i # p) = i # pathIndices p"
| "pathIndices (Named n # p) = pathIndices p"
| "pathIndices (Keyed k # p) = pathIndices p"

subsection \<open>More example objects\<close>

abbreviation electPath :: Path where
  "electPath \<equiv> Child (NewPath ''spec'') ''leaderElect''"

abbreviation gatesPath :: Path where
  "gatesPath \<equiv> Child (NewPath ''spec'') ''featureGates''"

text \<open>A type configuration whose name is not the one derived from its target type and whose Propagation is empty.\<close>

definition misnamedTypeConfig :: FederatedTypeConfig where
  "misnamedTypeConfig =
     podTypeConfig\<lparr>Name := ''wrong'', Spec := (Spec podTypeConfig)\<lparr>Propagation := []\<rparr>\<rparr>"

text \<open>The feature gates of the fourth scenario of the specification.\<close>

definition repeatedGates :: "FeatureGatesConfig list" where
  "repeatedGates = [\<lparr>GateName = ''X'', Configuration = ''Enabled''\<rparr>,
                    \<lparr>GateName = ''X'', Configuration = ''Disabled''\<rparr>]"

text \<open>The leader election of the third scenario of the specification, and three variants of the example.\<close>

definition equalLeaseElect :: LeaderElectConfig where
  "equalLeaseElect = \<lparr>LeaseDuration = 10 * second, RenewDeadline = 10 * second,
                       RetryPeriod = 2 * second, ResourceLock = ConfigMapsResourceLock\<rparr>"

definition zeroLeaseElect :: LeaderElectConfig where
  "zeroLeaseElect = leaderElect\<lparr>LeaseDuration := 0\<rparr>"

definition tightRenewElect :: LeaderElectConfig where
  "tightRenewElect = leaderElect\<lparr>RenewDeadline := 2 * second\<rparr>"

definition negativeRetryElect :: LeaderElectConfig where
  "negativeRetryElect = leaderElect\<lparr>RenewDeadline := - 1, RetryPeriod := - 1\<rparr>"

text \<open>
  A retry period of \<open>2^52 + 3\<close> nanoseconds, with a renew deadline one fifth of a
  nanosecond above the exact product of the retry period and 1.2.
\<close>

definition roundedProductElect :: LeaderElectConfig where
  "roundedProductElect =
     \<lparr>LeaseDuration = 6000000000000000, RenewDeadline = 5404319552844599,
      RetryPeriod = 4503599627370499, ResourceLock = ConfigMapsResourceLock\<rparr>"

text \<open>Descriptors that differ from the federated example in the group, and from the pod in the kind.\<close>

definition singleLabelResource :: APIResource where
  "singleLabelResource = federatedPodResource\<lparr>Group := ''example''\<rparr>"

definition emptyGroupResource :: APIResource where
  "emptyGroupResource = federatedPodResource\<lparr>Group := []\<rparr>"

definition upperCaseGroupResource :: APIResource where
  "upperCaseGroupResource = federatedPodResource\<lparr>Group := ''Example''\<rparr>"

definition upperKindResource :: APIResource where
  "upperKindResource = podResource\<lparr>Kind := ''A_''\<rparr>"

definition lowerKindResource :: APIResource where
  "lowerKindResource = podResource\<lparr>Kind := ''a_''\<rparr>"

definition lowerPodResource :: APIResource where
  "lowerPodResource = podResource\<lparr>Kind := ''pod''\<rparr>"

section \<open>Properties\<close>

subsection \<open>Filtering a violation list\<close>

lemma acceptedLoop_iff: "acceptedLoop accepted v \<longleftrightarrow> v \<in> set accepted"
  by (induction accepted) auto

lemma onPath_Nil [simp]: "onPath p [] = []"
  by (simp add: onPath_def)

lemma onPath_append [simp]: "onPath p (xs @ ys) = onPath p xs @ onPath p ys"
  by (simp add: onPath_def)

lemma onPath_Cons [simp]:
  "onPath p (e # es) = (if ErrField e = p then e # onPath p es else onPath p es)"
  by (simp add: onPath_def)

lemma underPath_Nil [simp]: "underPath p [] = []"
  by (simp add: underPath_def)

lemma underPath_append [simp]: "underPath p (xs @ ys) = underPath p xs @ underPath p ys"
  by (simp add: underPath_def)

lemma underPath_Cons [simp]:
  "underPath p (e # es) =
     (if take (length p) (ErrField e) = p then e # underPath p es else underPath p es)"
  by (simp add: underPath_def)

lemma ofType_Nil [simp]: "ofType t [] = []"
  by (simp add: ofType_def)

lemma ofType_append [simp]: "ofType t (xs @ ys) = ofType t xs @ ofType t ys"
  by (simp add: ofType_def)

lemma ofType_Cons [simp]:
  "ofType t (e # es) = (if ErrType e = t then e # ofType t es else ofType t es)"
  by (simp add: ofType_def)

lemma onPath_validateEnumStrings:
  "onPath p (validateEnumStrings q v accepted) =
     (if q = p then validateEnumStrings q v accepted else [])"
  by (simp add: validateEnumStrings_def)

lemma underPath_validateEnumStrings:
  "underPath p (validateEnumStrings q v accepted) =
     (if take (length p) q = p then validateEnumStrings q v accepted else [])"
  by (simp add: validateEnumStrings_def)

lemma ofType_Duplicate_validateEnumStrings:
  "ofType ErrorTypeDuplicate (validateEnumStrings q v accepted) = []"
  by (simp add: validateEnumStrings_def)

lemma onPath_validateGreaterThan0:
  "onPath p (validateGreaterThan0 q v) = (if q = p then validateGreaterThan0 q v else [])"
  by (simp add: validateGreaterThan0_def)

lemma underPath_validateGreaterThan0:
  "underPath p (validateGreaterThan0 q v) =
     (if take (length p) q = p then validateGreaterThan0 q v else [])"
  by (simp add: validateGreaterThan0_def)

lemma ofType_Duplicate_validateGreaterThan0:
  "ofType ErrorTypeDuplicate (validateGreaterThan0 q v) = []"
  by (simp add: validateGreaterThan0_def)

subsection \<open>The loop over the feature gates\<close>

lemma upt_0_Suc_shift: "map f [0..<Suc n] = f 0 # map (\<lambda>i. f (Suc i)) [0..<n]"
  by (simp only: upt_conv_Cons [of 0 "Suc n"] map_Suc_upt [symmetric]) (simp add: comp_def)

text \<open>
  The loop appends, for each gate in turn, the violations the specification asks for,
  where the names seen are the keys of the map at the start together with the names of
  the gates before the current one.
\<close>

lemma gatesLoop_seen:
  "gatesLoop p m errs gates =
     errs @ concat (map (\<lambda>i. entryViolations p (dom m \<union> namesBefore gates i) (gates ! i))
                      [0..<length gates])"
proof (induction gates arbitrary: m errs)
  case Nil
  show ?case by simp
next
  case (Cons g gates)
  let ?F = "\<lambda>m gs i. entryViolations p (dom m \<union> namesBefore gs i) (gs ! i)"
  have split: "concat (map (?F m (g # gates)) [0..<length (g # gates)])
                 = ?F m (g # gates) 0 @ concat (map (\<lambda>i. ?F m (g # gates) (Suc i)) [0..<length gates])"
    using upt_0_Suc_shift [of "?F m (g # gates)" "length gates"] by simp
  have first: "?F m (g # gates) 0 = entryViolations p (dom m) g"
    by (simp add: namesBefore_def)
  show ?case
  proof (cases "m (GateName g)")
    case None
    have d: "?F m (g # gates) (Suc i) = ?F (m(GateName g \<mapsto> True)) gates i" for i
      by (simp add: namesBefore_def)
    have h: "GateName g \<notin> dom m" using None by auto
    have loop: "gatesLoop p m errs (g # gates) =
        gatesLoop p (m(GateName g \<mapsto> True)) (errs @ entryViolations p (dom m) g) gates"
      using None h by (simp add: entryViolations_def knownFeatures_def)
    show ?thesis
      unfolding loop Cons.IH split first d by simp
  next
    case (Some ok)
    have h: "GateName g \<in> dom m" using Some by auto
    have d: "?F m (g # gates) (Suc i) = ?F m gates i" for i
      using h by (simp add: namesBefore_def insert_absorb)
    have loop: "gatesLoop p m errs (g # gates) =
        gatesLoop p m (errs @ entryViolations p (dom m) g) gates"
      using Some h by (simp add: entryViolations_def)
    show ?thesis
      unfolding loop Cons.IH split first d by simp
  qed
qed

lemma gatesLoop_featureGatesViolations:
  "gatesLoop p Map.empty errs gates = errs @ featureGatesViolations p gates"
  unfolding gatesLoop_seen featureGatesViolations_def gateViolations_def by simp

lemma entryViolations_field:
  "e \<in> set (entryViolations p seen gate) \<Longrightarrow>
     ErrField e = Child p ''name'' \<or> ErrField e = Child p ''configuration''"
  by (auto simp: entryViolations_def validateEnumStrings_def split: if_splits)

lemma featureGatesViolations_field:
  "e \<in> set (featureGatesViolations p gates) \<Longrightarrow>
     ErrField e = Child p ''name'' \<or> ErrField e = Child p ''configuration''"
  by (auto simp: featureGatesViolations_def gateViolations_def dest: entryViolations_field)

lemma underPath_featureGatesViolations:
  "underPath p (featureGatesViolations p gates) = featureGatesViolations p gates"
  unfolding underPath_def
  by (rule filter_True) (auto dest!: featureGatesViolations_field simp: Child_def)

lemma onPath_featureGatesViolations:
  "q \<noteq> Child p ''name'' \<Longrightarrow> q \<noteq> Child p ''configuration'' \<Longrightarrow>
     onPath q (featureGatesViolations p gates) = []"
  unfolding onPath_def
  by (auto simp: filter_empty_conv dest!: featureGatesViolations_field)

lemma ofType_Duplicate_entryViolations:
  "ofType ErrorTypeDuplicate (entryViolations p seen gate) =
     (if GateName gate \<in> seen then [Duplicate (Child p ''name'') (StrVal (GateName gate))] else [])"
  by (simp add: entryViolations_def ofType_Duplicate_validateEnumStrings)

lemma ofType_Duplicate_gateViolations:
  "ofType ErrorTypeDuplicate (concat (map (gateViolations p gates) xs)) =
     map (\<lambda>i. Duplicate (Child p ''name'') (StrVal (GateName (gates ! i))))
       (filter (\<lambda>i. GateName (gates ! i) \<in> namesBefore gates i) xs)"
  by (induction xs) (simp_all add: gateViolations_def ofType_Duplicate_entryViolations)

subsection \<open>The violations of ValidateKubeFedConfig by path and by type\<close>

lemma ValidateKubeFedConfig_under_featureGates:
  "underPath gatesPath (ValidateKubeFedConfig lib cfg) =
     featureGatesViolations gatesPath (FeatureGates (ConfigSpec cfg))"
proof -
  have u: "underPath [Named ''spec'', Named ''featureGates'']
             (featureGatesViolations [Named ''spec'', Named ''featureGates''] gs)
           = featureGatesViolations [Named ''spec'', Named ''featureGates''] gs" for gs
    by (rule underPath_featureGatesViolations)
  show ?thesis
    unfolding ValidateKubeFedConfig_def Let_def gatesLoop_featureGatesViolations
    by (simp add: underPath_validateEnumStrings underPath_validateGreaterThan0 u
        Child_def NewPath_def)
qed

lemma ValidateKubeFedConfig_duplicates:
  "ofType ErrorTypeDuplicate (ValidateKubeFedConfig lib cfg) =
     map (\<lambda>i. Duplicate (Child gatesPath ''name'')
                 (StrVal (GateName (FeatureGates (ConfigSpec cfg) ! i))))
       (repeatedPositions (FeatureGates (ConfigSpec cfg)))"
  unfolding ValidateKubeFedConfig_def Let_def gatesLoop_featureGatesViolations
  by (simp add: ofType_Duplicate_validateEnumStrings ofType_Duplicate_validateGreaterThan0
      featureGatesViolations_def ofType_Duplicate_gateViolations repeatedPositions_def)

lemma ValidateKubeFedConfig_on_leaseDuration:
  "onPath (Child electPath ''leaseDuration'') (ValidateKubeFedConfig lib cfg) =
     validateGreaterThan0 (Child electPath ''leaseDuration'')
       (LeaseDuration (LeaderElect (ConfigSpec cfg)))
     @ (if LeaseDuration (LeaderElect (ConfigSpec cfg)) \<le> RenewDeadline (LeaderElect (ConfigSpec cfg))
        then [Invalid (Child electPath ''leaseDuration'')
                (DurationVal (LeaseDuration (LeaderElect (ConfigSpec cfg))))
                ''leaseDuration must be greater than renewDeadline'']
        else [])"
proof -
  have g: "onPath [Named ''spec'', Named ''leaderElect'', Named ''leaseDuration'']
             (featureGatesViolations [Named ''spec'', Named ''featureGates''] gs) = []" for gs
    by (rule onPath_featureGatesViolations) (simp_all add: Child_def)
  show ?thesis
    unfolding ValidateKubeFedConfig_def Let_def gatesLoop_featureGatesViolations
    by (simp add: onPath_validateEnumStrings onPath_validateGreaterThan0 g Child_def NewPath_def)
qed

lemma ValidateKubeFedConfig_on_renewDeadline:
  "onPath (Child electPath ''renewDeadline'') (ValidateKubeFedConfig lib cfg) =
     validateGreaterThan0 (Child electPath ''renewDeadline'')
       (RenewDeadline (LeaderElect (ConfigSpec cfg)))
     @ (if RenewDeadline (LeaderElect (ConfigSpec cfg))
             \<le> jitterDuration lib (RetryPeriod (LeaderElect (ConfigSpec cfg)))
        then [Invalid (Child electPath ''renewDeadline'')
                (DurationVal (RenewDeadline (LeaderElect (ConfigSpec cfg))))
                ''renewDeadline must be greater than retryPeriod*JitterFactor'']
        else [])"
proof -
  have g: "onPath [Named ''spec'', Named ''leaderElect'', Named ''renewDeadline'']
             (featureGatesViolations [Named ''spec'', Named ''featureGates''] gs) = []" for gs
    by (rule onPath_featureGatesViolations) (simp_all add: Child_def)
  show ?thesis
    unfolding ValidateKubeFedConfig_def Let_def gatesLoop_featureGatesViolations
    by (simp add: onPath_validateEnumStrings onPath_validateGreaterThan0 g Child_def NewPath_def)
qed

subsection \<open>The float64 product for retry periods below \<open>2^50\<close> nanoseconds\<close>

lemma bitLength_nonneg: "0 \<le> bitLength n"
proof (induction n rule: bitLength.induct)
  case (1 n)
  then show ?case by (simp add: bitLength.simps [of n])
qed

lemma bitLength_pos: "0 < n \<Longrightarrow> 1 \<le> bitLength n"
  using bitLength_nonneg [of "n div 2"] by (simp add: bitLength.simps [of n])

lemma bitLength_bounds:
  "0 < n \<Longrightarrow> 2 ^ nat (bitLength n - 1) \<le> n \<and> n < 2 ^ nat (bitLength n)"
proof (induction n rule: bitLength.induct)
  case (1 n)
  show ?case
  proof (cases "n = 1")
    case True
    then show ?thesis
      by (simp add: bitLength.simps [of 1] bitLength.simps [of 0])
  next
    case False
    then have h: "0 < n div 2" using "1.prems" by simp
    have ih: "2 ^ nat (bitLength (n div 2) - 1) \<le> n div 2 \<and> n div 2 < 2 ^ nat (bitLength (n div 2))"
      using "1.IH" "1.prems" h by simp
    have b: "bitLength n = 1 + bitLength (n div 2)"
      using "1.prems" by (simp add: bitLength.simps [of n])
    have p: "1 \<le> bitLength (n div 2)" using h by (rule bitLength_pos)
    have e1: "nat (bitLength n - 1) = Suc (nat (bitLength (n div 2) - 1))"
      using b p by simp
    have e2: "nat (bitLength n) = Suc (nat (bitLength (n div 2)))"
      using b p by simp
    show ?thesis
      unfolding e1 e2 using ih by (simp; presburger)
  qed
qed

lemma ilog2_bounds:
  assumes "1 \<le> x"
  shows "0 \<le> ilog2 x" and "2 ^ nat (ilog2 x) \<le> x" and "x < 2 ^ Suc (nat (ilog2 x))"
proof -
  let ?n = "\<lfloor>x\<rfloor>"
  have n: "0 < ?n" using assms by simp
  have i: "ilog2 x = bitLength ?n - 1" using assms by (simp add: ilog2_def)
  have p: "1 \<le> bitLength ?n" using n by (rule bitLength_pos)
  have b: "2 ^ nat (bitLength ?n - 1) \<le> ?n \<and> ?n < 2 ^ nat (bitLength ?n)"
    using n by (rule bitLength_bounds)
  show "0 \<le> ilog2 x" using i p by simp
  have "(of_int (2 ^ nat (bitLength ?n - 1)) :: rat) \<le> of_int ?n"
    using b by (simp only: of_int_le_iff)
  also have "\<dots> \<le> x" by simp
  finally show "2 ^ nat (ilog2 x) \<le> x" by (simp add: i)
  have s: "Suc (nat (ilog2 x)) = nat (bitLength ?n)" using i p by simp
  have "?n + 1 \<le> 2 ^ nat (bitLength ?n)" using b by simp
  then have "(of_int (?n + 1) :: rat) \<le> of_int (2 ^ nat (bitLength ?n))"
    by (simp only: of_int_le_iff)
  moreover have "x < of_int (?n + 1)" by linarith
  ultimately show "x < 2 ^ Suc (nat (ilog2 x))" unfolding s by simp
qed

lemma pow2_nonpos: "e \<le> 0 \<Longrightarrow> pow2 e = 1 / 2 ^ nat (- e)"
  by (cases "e = 0") (simp_all add: pow2_def)

lemma roundHalfEven_of_int: "roundHalfEven (of_int K) = K"
  by (simp add: roundHalfEven_def)

lemma roundHalfEven_below:
  assumes "0 < d" and "d < 1 / 2"
  shows "roundHalfEven (of_int K - d) = K"
proof -
  have f: "\<lfloor>(of_int K :: rat) - d\<rfloor> = K - 1"
    using assms by (simp add: floor_unique)
  show ?thesis
    using assms by (simp add: roundHalfEven_def f Let_def)
qed

lemma roundHalfEven_error: "\<bar>of_int (roundHalfEven y) - y\<bar> \<le> 1 / 2"
proof -
  have "of_int \<lfloor>y\<rfloor> \<le> y" "y < of_int \<lfloor>y\<rfloor> + 1" by linarith+
  then show ?thesis
    by (auto simp: roundHalfEven_def Let_def abs_le_iff)
qed

lemma roundFloat64_scaled:
  assumes "1 \<le> x" and "ilog2 x \<le> 52"
  shows "roundFloat64 x =
           of_int (roundHalfEven (x * 2 ^ nat (52 - ilog2 x))) / 2 ^ nat (52 - ilog2 x)"
proof -
  have a: "\<bar>x\<bar> = x" and z: "x \<noteq> 0" using assms by simp_all
  have q: "pow2 (ilog2 x - 52) = 1 / 2 ^ nat (52 - ilog2 x)"
    using assms pow2_nonpos [of "ilog2 x - 52"] by simp
  show ?thesis
    by (simp add: roundFloat64_def z a q Let_def)
qed

lemma int64ToFloat64_exact:
  assumes "0 \<le> n" and "n < 2 ^ 53"
  shows "int64ToFloat64 n = of_int n"
proof (cases "n = 0")
  case True
  then show ?thesis by (simp add: int64ToFloat64_def roundFloat64_def)
next
  case False
  let ?x = "of_int n :: rat"
  let ?e = "ilog2 ?x"
  have x: "1 \<le> ?x" using False assms by simp
  have lo: "2 ^ nat ?e \<le> ?x" using x by (rule ilog2_bounds)
  have "?x < 2 ^ 53" using assms by (metis of_int_less_iff of_int_numeral of_int_power)
  with lo have "(2::rat) ^ nat ?e < 2 ^ 53" by (rule le_less_trans)
  then have "nat ?e < 53" by (rule power_less_imp_less_exp [rotated]) simp
  then have e: "?e \<le> 52" by simp
  have i: "?x * 2 ^ nat (52 - ?e) = of_int (n * 2 ^ nat (52 - ?e))" by simp
  show ?thesis
    unfolding int64ToFloat64_def roundFloat64_scaled [OF x e] i roundHalfEven_of_int
    by simp
qed

lemma roundFloat64_six_fifths: "roundFloat64 (6 / 5) = 5404319552844595 / 4503599627370496"
  by code_simp

lemma float64ToInt64_of_int:
  assumes "0 \<le> k" and "k < 2 ^ 63"
  shows "float64ToInt64 lib (of_int k) = k"
  using assms by (simp add: float64ToInt64_def truncToZero_def Let_def)

lemma float64ToInt64_floor:
  assumes "of_int k \<le> r" and "r < of_int k + 1" and "0 \<le> k" and "k < 2 ^ 63"
  shows "float64ToInt64 lib r = k"
proof -
  have f: "\<lfloor>r\<rfloor> = k" using assms(1,2) by (simp add: floor_unique)
  have "0 \<le> r" using assms(1,3) by (meson of_int_0_le_iff order_trans)
  then show ?thesis
    using assms(3,4) by (simp add: float64ToInt64_def truncToZero_def Let_def f)
qed

lemma jitterDuration_exact:
  assumes jf: "JitterFactor lib = 6 / 5" and lo: "0 \<le> rp" and hi: "rp < 2 ^ 50"
  shows "jitterDuration lib rp = \<lfloor>of_int rp * (6 / 5 :: rat)\<rfloor>"
proof (cases "rp = 0")
  case True
  then show ?thesis
    by (simp add: float64Const_def float64Mul_def int64ToFloat64_def roundFloat64_def
        float64ToInt64_def truncToZero_def)
next
  case False
  define D :: rat where "D = 4503599627370496"
  define c :: rat where "c = 5404319552844595 / 4503599627370496"
  define p :: rat where "p = of_int rp * c"
  define k where "k = (6 * rp) div 5"
  define s where "s = (6 * rp) mod 5"
  define d :: rat where "d = of_int rp / (5 * D)"
  have rp1: "1 \<le> rp" using False lo by simp
  have rpq: "(1::rat) \<le> of_int rp" using rp1 by simp
  have rph: "of_int rp < (1125899906842624 :: rat)"
  proof -
    have "rp < 1125899906842624" using hi by simp
    then show ?thesis by (metis of_int_less_iff of_int_numeral)
  qed
  have x: "int64ToFloat64 rp = of_int rp"
    using lo hi by (intro int64ToFloat64_exact) simp_all
  have jd: "jitterDuration lib rp = float64ToInt64 lib (roundFloat64 p)"
    by (simp add: float64Const_def float64Mul_def x jf roundFloat64_six_fifths p_def c_def)
  have ks: "6 * rp = 5 * k + s" "0 \<le> s" "s < 5"
    by (simp_all add: k_def s_def)
  have k0: "0 \<le> k" using lo by (simp add: k_def)
  have kq: "6 * of_int rp = 5 * (of_int k :: rat) + of_int s"
    using ks(1) by (metis of_int_add of_int_mult of_int_numeral)
  have d0: "0 < d" using rpq by (simp add: d_def D_def)
  have d1: "d < 1 / 20" using rph by (simp add: d_def D_def)
  have pk: "p = of_int k + of_int s / 5 - d"
    using kq by (simp add: p_def c_def d_def D_def)
  have sq: "(0::rat) \<le> of_int s" "(of_int s :: rat) \<le> 4"
    using ks(2,3) by simp_all
  have p1: "1 \<le> p" using rpq by (simp add: p_def c_def)
  have p2: "p < 2 ^ 51" using rph by (simp add: p_def c_def)
  have kh: "k < 2 ^ 63"
  proof -
    have "5 * k \<le> 6 * rp" using ks by simp
    then show ?thesis using hi by simp
  qed
  have fl: "\<lfloor>of_int rp * (6 / 5 :: rat)\<rfloor> = k"
  proof (rule floor_unique)
    show "of_int k \<le> of_int rp * (6 / 5 :: rat)" using kq sq by simp
    show "of_int rp * (6 / 5 :: rat) < of_int k + 1" using kq sq by simp
  qed
  define e where "e = ilog2 p"
  have e0: "0 \<le> e" and e1: "2 ^ nat e \<le> p" and e2: "p < 2 ^ Suc (nat e)"
    unfolding e_def using p1 by (rule ilog2_bounds)+
  have "(2::rat) ^ nat e < 2 ^ 51" using e1 p2 by (rule le_less_trans)
  then have en: "nat e < 51" by (rule power_less_imp_less_exp [rotated]) simp
  then have e52: "e \<le> 52" by simp
  define t where "t = nat (52 - e)"
  have t2: "2 \<le> t" and te: "t + nat e = 52" using en e0 by (simp_all add: t_def)
  define T :: rat where "T = 2 ^ t"
  define E :: rat where "E = 2 ^ nat e"
  have TE: "T * E = D"
  proof -
    have "T * E = 2 ^ (t + nat e)" by (simp add: T_def E_def power_add)
    then show ?thesis by (simp add: te D_def)
  qed
  have T0: "0 < T" and E0: "0 < E" by (simp_all add: T_def E_def)
  have T4: "4 \<le> T"
  proof -
    have "(2::rat) ^ 2 \<le> 2 ^ t" using t2 by (intro power_increasing) simp_all
    then show ?thesis by (simp add: T_def)
  qed
  have R: "roundFloat64 p = of_int (roundHalfEven (p * T)) / T"
    using roundFloat64_scaled [OF p1] e52 by (simp add: e_def t_def T_def)
  show ?thesis
  proof (cases "s = 0")
    case True
    have pk0: "p = of_int k - d" using pk True by simp
    have rk: "of_int rp = 5 * (of_int k :: rat) / 6" using kq True by simp
    have k2: "(of_int k :: rat) \<le> 2 * E"
    proof -
      have "of_int k < 2 * E + 1" using e2 pk0 d1 by (simp add: E_def)
      then have "(of_int k :: rat) < of_int (2 * 2 ^ nat e + 1)" by (simp add: E_def)
      then have "k < 2 * 2 ^ nat e + 1" by (simp only: of_int_less_iff)
      then have "k \<le> 2 * 2 ^ nat e" by simp
      then have "(of_int k :: rat) \<le> of_int (2 * 2 ^ nat e)" by (simp only: of_int_le_iff)
      then show ?thesis by (simp add: E_def)
    qed
    define dl where "dl = d * T"
    have dlE: "dl * E = of_int rp / 5"
    proof -
      have "dl * E = d * (T * E)" by (simp add: dl_def)
      then show ?thesis using TE by (simp add: d_def D_def)
    qed
    have "dl * E \<le> (1 / 3) * E" using k2 rk by (simp add: dlE)
    then have "dl \<le> 1 / 3" using E0 by (simp only: mult_le_cancel_right_pos)
    then have dl1: "dl < 1 / 2" by simp
    have dl0: "0 < dl" using d0 T0 by (simp add: dl_def)
    have "p * T = of_int (k * 2 ^ t) - dl"
      by (simp add: pk0 dl_def T_def algebra_simps)
    then have "roundHalfEven (p * T) = k * 2 ^ t"
      by (simp only: roundHalfEven_below [OF dl0 dl1])
    then have "roundFloat64 p = of_int k" using T0 by (simp add: R T_def)
    then show ?thesis
      unfolding jd fl using float64ToInt64_of_int [OF k0 kh] by simp
  next
    case False
    then have s1: "(1::rat) \<le> of_int s" using ks(2) by simp
    define r where "r = roundFloat64 p"
    have "\<bar>of_int (roundHalfEven (p * T)) - p * T\<bar> \<le> 1 / 2"
      by (rule roundHalfEven_error)
    then have "\<bar>r * T - p * T\<bar> \<le> 1 / 2" using T0 by (simp add: r_def R)
    moreover have "\<bar>r - p\<bar> * T = \<bar>r * T - p * T\<bar>"
    proof -
      have "\<bar>r * T - p * T\<bar> = \<bar>(r - p) * T\<bar>" by (simp add: left_diff_distrib)
      also have "\<dots> = \<bar>r - p\<bar> * \<bar>T\<bar>" by (rule abs_mult)
      also have "\<dots> = \<bar>r - p\<bar> * T" using T0 by simp
      finally show ?thesis by simp
    qed
    ultimately have "\<bar>r - p\<bar> * T \<le> 1 / 2" by simp
    moreover have "\<bar>r - p\<bar> * 4 \<le> \<bar>r - p\<bar> * T"
      using T4 by (intro mult_left_mono) simp_all
    ultimately have err: "\<bar>r - p\<bar> \<le> 1 / 8" by simp
    have near: "p - 1 / 8 \<le> r" "r \<le> p + 1 / 8" using err by linarith+
    have a: "of_int k \<le> r" using near(1) pk s1 d1 by linarith
    have b: "r < of_int k + 1" using near(2) pk sq d0 by linarith
    show ?thesis
      unfolding jd fl using float64ToInt64_floor [OF a b k0 kh] by (simp add: r_def)
  qed
qed

subsection \<open>The violations of a descriptor by path\<close>

text \<open>A group has fewer than two dot-separated pieces exactly when it has no dot.\<close>

lemma Split_length: "length (Split s sep) = Suc (count_list s sep)"
  by (induction s) (auto split: list.splits)

lemma Split_single_iff: "length (Split s sep) < 2 \<longleftrightarrow> sep \<notin> set s"
  by (simp add: Split_length count_list_0_iff)

lemma ValidateAPIResource_under:
  "e \<in> set (ValidateAPIResource lib obj p) \<Longrightarrow> take (length p) (ErrField e) = p"
  unfolding ValidateAPIResource_def Let_def validateEnumStrings_def Child_def
  by (auto split: if_splits)

lemma ValidateFederatedAPIResource_under:
  "e \<in> set (ValidateFederatedAPIResource lib obj p) \<Longrightarrow> take (length p) (ErrField e) = p"
  unfolding ValidateFederatedAPIResource_def Let_def
  by (auto split: if_splits dest: ValidateAPIResource_under simp: Child_def)

lemma validateEnumStrings_under:
  "e \<in> set (validateEnumStrings (Child p n) v accepted) \<Longrightarrow> take (length p) (ErrField e) = p"
  by (auto simp: validateEnumStrings_def Child_def split: if_splits)

lemma under_Child:
  assumes "take (length (Child p n)) (ErrField e) = Child p n"
  shows "take (length p) (ErrField e) = p"
proof -
  have "take (length p) (take (length (Child p n)) (ErrField e)) = take (length p) (Child p n)"
    using assms by simp
  then show ?thesis
    by (simp add: Child_def min_def)
qed

lemma ValidateFederatedTypeConfigSpec_under:
  "e \<in> set (ValidateFederatedTypeConfigSpec lib spec p) \<Longrightarrow> take (length p) (ErrField e) = p"
  unfolding ValidateFederatedTypeConfigSpec_def Let_def ValidateStatusAPIResource_def
  by (auto split: option.splits
      dest: validateEnumStrings_under
      dest!: ValidateAPIResource_under ValidateFederatedAPIResource_under under_Child)

lemma onPath_name_ValidateFederatedTypeConfigSpec:
  "onPath (NewPath ''name'') (ValidateFederatedTypeConfigSpec lib spec (NewPath ''spec'')) = []"
  unfolding onPath_def
  by (auto simp: filter_empty_conv NewPath_def dest!: ValidateFederatedTypeConfigSpec_under)

lemma onPath_kind_ValidateAPIResource:
  "onPath (Child p ''kind'') (ValidateAPIResource lib obj p) =
     (if Kind obj = [] then [Required (Child p ''kind'') []]
      else if IsDNS1035Label lib (ToLower lib (Kind obj)) = [] then []
      else [Invalid (Child p ''kind'') (StrVal (Kind obj))
              (Join (IsDNS1035Label lib (ToLower lib (Kind obj))) '','')])"
  unfolding ValidateAPIResource_def Let_def
  by (simp add: onPath_validateEnumStrings Child_def)

lemma onPath_group_ValidateAPIResource:
  "onPath (Child p ''group'') (ValidateAPIResource lib obj p) =
     (if Group obj \<noteq> [] \<and> IsDNS1123Subdomain lib (Group obj) \<noteq> []
      then [Invalid (Child p ''group'') (StrVal (Group obj))
              (Join (IsDNS1123Subdomain lib (Group obj)) '','')]
      else [])"
  unfolding ValidateAPIResource_def Let_def
  by (simp add: onPath_validateEnumStrings Child_def)

section \<open>The claims\<close>

subsection \<open>C1: a name that does not match the target type\<close>

text \<open>
  The misnamed example: the name check gives its violation and the spec checks still run,
  so a violation on \<open>spec.propagation\<close> stands beside the one on \<open>name\<close>.
\<close>

theorem name_mismatch_not_exclusive_counterexample:
  "GroupQualifiedName k8s (GetTargetType misnamedTypeConfig) \<noteq> Name misnamedTypeConfig
   \<and> ValidateFederatedTypeConfig k8s misnamedTypeConfig False =
       [Invalid (NewPath ''name'') (StrVal ''wrong'') federatedTypeConfigNameErrorMsg,
        Required (Child (NewPath ''spec'') ''propagation'') []]"
  by code_simp

text \<open>
  Claim C1, as the code has it: for every FederatedTypeConfig validated with
  statusSubResource = false whose Name differs from the name derived from TargetType,
  ValidateFederatedTypeConfig returns exactly one violation on path \<open>name\<close>, an
  InvalidValue, as the first element of its result, and appends to it every violation
  of ValidateFederatedTypeConfigSpec: the name check and the spec-field checks are both
  run in the same call.
\<close>

theorem name_mismatch_prepends_one_violation:
  assumes "GroupQualifiedName lib (GetTargetType obj) \<noteq> Name obj"
  shows "ValidateFederatedTypeConfig lib obj False =
           Invalid (NewPath ''name'') (StrVal (Name obj)) federatedTypeConfigNameErrorMsg
           # ValidateFederatedTypeConfigSpec lib (Spec obj) (NewPath ''spec'')
         \<and> onPath (NewPath ''name'') (ValidateFederatedTypeConfig lib obj False) =
           [Invalid (NewPath ''name'') (StrVal (Name obj)) federatedTypeConfigNameErrorMsg]"
  using assms
  by (simp add: ValidateFederatedTypeConfig_def ValidateFederatedTypeConfigName_def Let_def
      onPath_name_ValidateFederatedTypeConfigSpec)

theorem name_mismatch_prepends_one_violation_witness:
  "GroupQualifiedName k8s (GetTargetType misnamedTypeConfig) \<noteq> Name misnamedTypeConfig
   \<and> (ValidateFederatedTypeConfig k8s misnamedTypeConfig False =
       Invalid (NewPath ''name'') (StrVal (Name misnamedTypeConfig)) federatedTypeConfigNameErrorMsg
       # ValidateFederatedTypeConfigSpec k8s (Spec misnamedTypeConfig) (NewPath ''spec'')
   \<and> onPath (NewPath ''name'') (ValidateFederatedTypeConfig k8s misnamedTypeConfig False) =
       [Invalid (NewPath ''name'') (StrVal (Name misnamedTypeConfig)) federatedTypeConfigNameErrorMsg])"
proof -
  have h: "GroupQualifiedName k8s (GetTargetType misnamedTypeConfig) \<noteq> Name misnamedTypeConfig"
    by code_simp
  show ?thesis
    using h name_mismatch_prepends_one_violation [OF h] by (rule conjI)
qed

subsection \<open>C2: the feature gates\<close>

text \<open>
  Claim C2: for every FeatureGates sequence, the violations of ValidateKubeFedConfig below
  \<open>spec.featureGates\<close> are those of its entries in declared order; an entry whose Name
  occurs at an earlier position gives exactly one Duplicate violation and none of the
  enum checks, whatever its Configuration; an entry whose Name occurs for the first time
  has its Name checked against the known feature identifiers and its Configuration
  against Enabled and Disabled.
\<close>

theorem featureGates_violations_in_declared_order:
  "underPath gatesPath (ValidateKubeFedConfig lib cfg) =
     concat (map (gateViolations gatesPath (FeatureGates (ConfigSpec cfg)))
               [0..<length (FeatureGates (ConfigSpec cfg))])
   \<and> (\<forall>i < length (FeatureGates (ConfigSpec cfg)).
         GateName (FeatureGates (ConfigSpec cfg) ! i) \<in> namesBefore (FeatureGates (ConfigSpec cfg)) i \<longrightarrow>
           gateViolations gatesPath (FeatureGates (ConfigSpec cfg)) i =
             [Duplicate (Child gatesPath ''name'')
                (StrVal (GateName (FeatureGates (ConfigSpec cfg) ! i)))])
   \<and> (\<forall>i < length (FeatureGates (ConfigSpec cfg)).
         GateName (FeatureGates (ConfigSpec cfg) ! i) \<notin> namesBefore (FeatureGates (ConfigSpec cfg)) i \<longrightarrow>
           gateViolations gatesPath (FeatureGates (ConfigSpec cfg)) i =
             validateEnumStrings (Child gatesPath ''name'')
               (GateName (FeatureGates (ConfigSpec cfg) ! i))
               [PushReconciler, SchedulerPreferences, CrossClusterServiceDiscovery, FederatedIngress]
             @ validateEnumStrings (Child gatesPath ''configuration'')
                 (Configuration (FeatureGates (ConfigSpec cfg) ! i))
                 [ConfigurationEnabled, ConfigurationDisabled])"
  by (simp add: ValidateKubeFedConfig_under_featureGates featureGatesViolations_def
      gateViolations_def entryViolations_def knownFeatures_def)

theorem featureGates_violations_in_declared_order_witness:
  "underPath gatesPath (ValidateKubeFedConfig k8s (withFeatureGates repeatedGates)) =
     [NotSupported (Child gatesPath ''name'') (StrVal ''X'') knownFeatures,
      Duplicate (Child gatesPath ''name'') (StrVal ''X'')]
   \<and> (1 < length repeatedGates \<and> GateName (repeatedGates ! 1) \<in> namesBefore repeatedGates 1)
   \<and> gateViolations gatesPath repeatedGates 1 = [Duplicate (Child gatesPath ''name'') (StrVal ''X'')]
   \<and> (0 < length repeatedGates \<and> GateName (repeatedGates ! 0) \<notin> namesBefore repeatedGates 0)
   \<and> gateViolations gatesPath repeatedGates 0 =
        [NotSupported (Child gatesPath ''name'') (StrVal ''X'') knownFeatures]"
proof -
  have g: "FeatureGates (ConfigSpec (withFeatureGates repeatedGates)) = repeatedGates"
    by (simp add: withFeatureGates_def)
  have a: "1 < length repeatedGates \<and> GateName (repeatedGates ! 1) \<in> namesBefore repeatedGates 1"
    by code_simp
  have b: "0 < length repeatedGates \<and> GateName (repeatedGates ! 0) \<notin> namesBefore repeatedGates 0"
    by code_simp
  have n: "GateName (repeatedGates ! 0) = ''X''" "GateName (repeatedGates ! 1) = ''X''"
    "Configuration (repeatedGates ! 0) = ''Enabled''"
    by (simp_all add: repeatedGates_def)
  have e: "validateEnumStrings (Child gatesPath ''name'') ''X''
             [PushReconciler, SchedulerPreferences, CrossClusterServiceDiscovery, FederatedIngress]
           @ validateEnumStrings (Child gatesPath ''configuration'') ''Enabled''
             [ConfigurationEnabled, ConfigurationDisabled]
           = [NotSupported (Child gatesPath ''name'') (StrVal ''X'') knownFeatures]"
    by code_simp
  have l: "[0..<length repeatedGates] = [0, 1]"
    by code_simp
  note t = featureGates_violations_in_declared_order [of k8s "withFeatureGates repeatedGates",
      unfolded g]
  have u: "underPath gatesPath (ValidateKubeFedConfig k8s (withFeatureGates repeatedGates)) =
             concat (map (gateViolations gatesPath repeatedGates) [0..<length repeatedGates])"
    using t by (rule conjunct1)
  have v1: "gateViolations gatesPath repeatedGates 1 =
              [Duplicate (Child gatesPath ''name'') (StrVal ''X'')]"
    using t a n by metis
  have v0: "gateViolations gatesPath repeatedGates 0 =
              [NotSupported (Child gatesPath ''name'') (StrVal ''X'') knownFeatures]"
    using t b n e by metis
  show ?thesis
    using a b v0 v1 u unfolding l by simp
qed

subsection \<open>C3: a lease duration that is not greater than the renew deadline\<close>

text \<open>
  A lease duration of zero is not greater than the renew deadline and is not positive
  either: two violations lie on \<open>spec.leaderElect.leaseDuration\<close>.
\<close>

theorem leaseDuration_two_violations_counterexample:
  "LeaseDuration zeroLeaseElect \<le> RenewDeadline zeroLeaseElect
   \<and> onPath (Child electPath ''leaseDuration'')
         (ValidateKubeFedConfig k8s (withLeaderElect zeroLeaseElect)) =
       [Invalid (Child electPath ''leaseDuration'') (Int64Val 0) ''should be greater than 0'',
        Invalid (Child electPath ''leaseDuration'') (DurationVal 0)
          ''leaseDuration must be greater than renewDeadline'']"
  by code_simp

text \<open>
  Claim C3, as the code has it: for every LeaderElect configuration where
  LeaseDuration \<open>\<le>\<close> RenewDeadline, ValidateKubeFedConfig produces on path
  \<open>spec.leaderElect.leaseDuration\<close> exactly one violation saying that leaseDuration
  must be greater than renewDeadline; it is the only violation on that path when
  LeaseDuration is positive (as for 10s, 10s, 2s), and it follows a violation of the
  positivity check on the same path when LeaseDuration is zero or negative.
\<close>

theorem leaseDuration_violations_when_not_greater:
  assumes "LeaseDuration (LeaderElect (ConfigSpec cfg)) \<le> RenewDeadline (LeaderElect (ConfigSpec cfg))"
  shows "onPath (Child electPath ''leaseDuration'') (ValidateKubeFedConfig lib cfg) =
           (if LeaseDuration (LeaderElect (ConfigSpec cfg)) \<le> 0
            then [Invalid (Child electPath ''leaseDuration'')
                    (Int64Val (LeaseDuration (LeaderElect (ConfigSpec cfg))))
                    ''should be greater than 0'']
            else [])
           @ [Invalid (Child electPath ''leaseDuration'')
                (DurationVal (LeaseDuration (LeaderElect (ConfigSpec cfg))))
                ''leaseDuration must be greater than renewDeadline'']"
  using assms
  by (simp add: ValidateKubeFedConfig_on_leaseDuration validateGreaterThan0_def)

theorem leaseDuration_violations_when_not_greater_witness:
  "LeaseDuration (LeaderElect (ConfigSpec (withLeaderElect equalLeaseElect)))
     \<le> RenewDeadline (LeaderElect (ConfigSpec (withLeaderElect equalLeaseElect)))
   \<and> onPath (Child electPath ''leaseDuration'')
         (ValidateKubeFedConfig k8s (withLeaderElect equalLeaseElect)) =
       [Invalid (Child electPath ''leaseDuration'') (DurationVal (10 * second))
          ''leaseDuration must be greater than renewDeadline'']"
proof -
  have h: "LeaseDuration (LeaderElect (ConfigSpec (withLeaderElect equalLeaseElect)))
             \<le> RenewDeadline (LeaderElect (ConfigSpec (withLeaderElect equalLeaseElect)))"
    by code_simp
  have l: "LeaseDuration (LeaderElect (ConfigSpec (withLeaderElect equalLeaseElect))) = 10 * second"
    by (simp add: withLeaderElect_def equalLeaseElect_def)
  show ?thesis
    using h leaseDuration_violations_when_not_greater [OF h, of k8s] by (simp add: l second_def)
qed

subsection \<open>C4: validateEnumStrings\<close>

text \<open>
  Claim C4: for every call validateEnumStrings(path, value, accepted): if value is the
  empty string the result is exactly one Required violation on path; if value is
  non-empty and not an exact string member of accepted the result is exactly one
  NotSupported violation carrying the full accepted set; if value is a member of
  accepted the result is the empty list. The three cases are those of the function in
  its order, so the third is a value that is not empty: with the empty string among
  the accepted values the first case and the third would ask for two different results.
\<close>

theorem validateEnumStrings_cases:
  "(v = [] \<longrightarrow> validateEnumStrings fldPath v accepted = [Required fldPath []])
   \<and> (v \<noteq> [] \<and> v \<notin> set accepted \<longrightarrow>
        validateEnumStrings fldPath v accepted = [NotSupported fldPath (StrVal v) accepted])
   \<and> (v \<noteq> [] \<and> v \<in> set accepted \<longrightarrow> validateEnumStrings fldPath v accepted = [])"
  by (simp add: validateEnumStrings_def acceptedLoop_iff)

theorem validateEnumStrings_cases_witness:
  "validateEnumStrings (NewPath ''scope'') [] [ClusterScoped, NamespaceScoped]
     = [Required (NewPath ''scope'') []]
   \<and> (''Global'' \<noteq> [] \<and> ''Global'' \<notin> set [ClusterScoped, NamespaceScoped])
   \<and> validateEnumStrings (NewPath ''scope'') ''Global'' [ClusterScoped, NamespaceScoped]
     = [NotSupported (NewPath ''scope'') (StrVal ''Global'') [ClusterScoped, NamespaceScoped]]
   \<and> (ClusterScoped \<noteq> [] \<and> ClusterScoped \<in> set [ClusterScoped, NamespaceScoped])
   \<and> validateEnumStrings (NewPath ''scope'') ClusterScoped [ClusterScoped, NamespaceScoped] = []"
  using validateEnumStrings_cases [of "[]" "NewPath ''scope''" "[ClusterScoped, NamespaceScoped]"]
    validateEnumStrings_cases [of "''Global''" "NewPath ''scope''" "[ClusterScoped, NamespaceScoped]"]
    validateEnumStrings_cases [of ClusterScoped "NewPath ''scope''" "[ClusterScoped, NamespaceScoped]"]
  by (simp add: ClusterScoped_def NamespaceScoped_def)

subsection \<open>C5: the group of a federated or status descriptor\<close>

text \<open>
  Claim C5: for every FederatedType or StatusType descriptor whose Group is empty, the
  strict descriptor validation yields a Required violation on \<open>group\<close>; whose Group is
  non-empty but has fewer than two dot-separated labels, it yields an InvalidValue
  violation on \<open>group\<close>. In both cases the violation comes first and the violations of
  the base descriptor check follow, so it is there whatever the other fields are, and
  the validation of the StatusType is that of the FederatedType.
\<close>

theorem strict_group_rule:
  "(Group obj = [] \<longrightarrow>
      ValidateFederatedAPIResource lib obj p =
        Required (Child p ''group'') [] # ValidateAPIResource lib obj p)
   \<and> (Group obj \<noteq> [] \<and> length (Split (Group obj) (CHR ''.'')) < 2 \<longrightarrow>
      ValidateFederatedAPIResource lib obj p =
        Invalid (Child p ''group'') (StrVal (Group obj)) domainWithAtLeastOneDot
        # ValidateAPIResource lib obj p)
   \<and> ValidateStatusAPIResource lib obj p = ValidateFederatedAPIResource lib obj p"
  by (simp add: ValidateFederatedAPIResource_def ValidateStatusAPIResource_def)

theorem strict_group_rule_witness:
  "(Group emptyGroupResource = []
    \<and> ValidateFederatedAPIResource k8s emptyGroupResource (NewPath ''federatedType'') =
        [Required (Child (NewPath ''federatedType'') ''group'') []])
   \<and> ((Group singleLabelResource \<noteq> [] \<and> length (Split (Group singleLabelResource) (CHR ''.'')) < 2)
    \<and> ValidateFederatedAPIResource k8s singleLabelResource (NewPath ''federatedType'') =
        [Invalid (Child (NewPath ''federatedType'') ''group'') (StrVal ''example'')
           domainWithAtLeastOneDot])"
proof -
  have e: "Group emptyGroupResource = []"
    by code_simp
  have ve: "ValidateAPIResource k8s emptyGroupResource (NewPath ''federatedType'') = []"
    by code_simp
  have s: "Group singleLabelResource \<noteq> [] \<and> length (Split (Group singleLabelResource) (CHR ''.'')) < 2"
    by code_simp
  have vs: "ValidateAPIResource k8s singleLabelResource (NewPath ''federatedType'') = []"
    by code_simp
  have gs: "Group singleLabelResource = ''example''"
    by code_simp
  show ?thesis
    using e s
      strict_group_rule [of emptyGroupResource k8s "NewPath ''federatedType''"]
      strict_group_rule [of singleLabelResource k8s "NewPath ''federatedType''"]
    by (simp add: ve vs gs)
qed

subsection \<open>C6: the renew deadline and the retry period\<close>

text \<open>
  Two configurations in which the renew deadline is greater than the exact product of the
  retry period and the jitter factor 1.2, and the violation of the jitter check is there
  all the same. With a renew deadline and a retry period of minus one nanosecond the
  product is -1.2 and its conversion to a duration is -1. With a retry period of
  \<open>2^52 + 3\<close> nanoseconds the exact product ends in .8 and the \<^verbatim>\<open>float64\<close>
  product is the next integer, which is the renew deadline.
\<close>

theorem renewDeadline_not_exact_product_counterexample:
  "(\<not> (of_int (RenewDeadline negativeRetryElect) :: rat)
         \<le> of_int (RetryPeriod negativeRetryElect) * JitterFactor k8s
    \<and> ValidateKubeFedConfig k8s (withLeaderElect negativeRetryElect) =
        [Invalid (Child electPath ''renewDeadline'') (Int64Val (- 1)) ''should be greater than 0'',
         Invalid (Child electPath ''retryPeriod'') (Int64Val (- 1)) ''should be greater than 0'',
         Invalid (Child electPath ''renewDeadline'') (DurationVal (- 1))
           ''renewDeadline must be greater than retryPeriod*JitterFactor''])
   \<and> (\<not> (of_int (RenewDeadline roundedProductElect) :: rat)
         \<le> of_int (RetryPeriod roundedProductElect) * JitterFactor k8s
    \<and> ValidateKubeFedConfig k8s (withLeaderElect roundedProductElect) =
        [Invalid (Child electPath ''renewDeadline'') (DurationVal 5404319552844599)
           ''renewDeadline must be greater than retryPeriod*JitterFactor''])"
  by code_simp

text \<open>
  Claim C6, as the code has it: for every LeaderElect configuration, ValidateKubeFedConfig
  emits the violation of the jitter check on \<open>spec.leaderElect.renewDeadline\<close> exactly
  when RenewDeadline \<open>\<le>\<close> \<^verbatim>\<open>time.Duration(float64(RetryPeriod) * JitterFactor)\<close>,
  the \<^verbatim>\<open>float64\<close> product of RetryPeriod and the jitter factor converted to a
  duration by discarding its fraction; the violations on that path are the one of the
  positivity check, when RenewDeadline is zero or negative, and then the one of the jitter
  check. For the jitter factor 1.2 and a RetryPeriod from 0 to below \<open>2^50\<close>
  nanoseconds the converted product is the exact product rounded down, so that there the
  jitter violation is emitted exactly when RenewDeadline \<open>\<le>\<close> RetryPeriod multiplied by
  the jitter factor, that is, RenewDeadline must be strictly greater than the product to
  pass.
\<close>

theorem renewDeadline_violation_iff:
  "(Invalid (Child electPath ''renewDeadline'')
      (DurationVal (RenewDeadline (LeaderElect (ConfigSpec cfg))))
      ''renewDeadline must be greater than retryPeriod*JitterFactor''
      \<in> set (ValidateKubeFedConfig lib cfg)
    \<longleftrightarrow> RenewDeadline (LeaderElect (ConfigSpec cfg))
          \<le> jitterDuration lib (RetryPeriod (LeaderElect (ConfigSpec cfg))))
   \<and> onPath (Child electPath ''renewDeadline'') (ValidateKubeFedConfig lib cfg) =
       (if RenewDeadline (LeaderElect (ConfigSpec cfg)) \<le> 0
        then [Invalid (Child electPath ''renewDeadline'')
                (Int64Val (RenewDeadline (LeaderElect (ConfigSpec cfg))))
                ''should be greater than 0'']
        else [])
       @ (if RenewDeadline (LeaderElect (ConfigSpec cfg))
               \<le> jitterDuration lib (RetryPeriod (LeaderElect (ConfigSpec cfg)))
          then [Invalid (Child electPath ''renewDeadline'')
                  (DurationVal (RenewDeadline (LeaderElect (ConfigSpec cfg))))
                  ''renewDeadline must be greater than retryPeriod*JitterFactor'']
          else [])
   \<and> (JitterFactor lib = 6 / 5
        \<and> 0 \<le> RetryPeriod (LeaderElect (ConfigSpec cfg))
        \<and> RetryPeriod (LeaderElect (ConfigSpec cfg)) < 2 ^ 50 \<longrightarrow>
        (Invalid (Child electPath ''renewDeadline'')
           (DurationVal (RenewDeadline (LeaderElect (ConfigSpec cfg))))
           ''renewDeadline must be greater than retryPeriod*JitterFactor''
           \<in> set (ValidateKubeFedConfig lib cfg)
         \<longleftrightarrow> (of_int (RenewDeadline (LeaderElect (ConfigSpec cfg))) :: rat)
               \<le> of_int (RetryPeriod (LeaderElect (ConfigSpec cfg))) * JitterFactor lib))"
proof -
  let ?e = "LeaderElect (ConfigSpec cfg)"
  let ?p = "Child electPath ''renewDeadline''"
  let ?v = "Invalid ?p (DurationVal (RenewDeadline ?e))
              ''renewDeadline must be greater than retryPeriod*JitterFactor''"
  have m: "?v \<in> set (ValidateKubeFedConfig lib cfg)
            \<longleftrightarrow> ?v \<in> set (onPath ?p (ValidateKubeFedConfig lib cfg))"
    by (simp add: onPath_def)
  have first: "?v \<in> set (ValidateKubeFedConfig lib cfg)
            \<longleftrightarrow> RenewDeadline ?e \<le> jitterDuration lib (RetryPeriod ?e)"
    unfolding m ValidateKubeFedConfig_on_renewDeadline
    by (simp add: validateGreaterThan0_def)
  have second: "onPath ?p (ValidateKubeFedConfig lib cfg) =
       (if RenewDeadline ?e \<le> 0
        then [Invalid ?p (Int64Val (RenewDeadline ?e)) ''should be greater than 0'']
        else [])
       @ (if RenewDeadline ?e \<le> jitterDuration lib (RetryPeriod ?e) then [?v] else [])"
    unfolding ValidateKubeFedConfig_on_renewDeadline
    by (simp add: validateGreaterThan0_def)
  have third: "?v \<in> set (ValidateKubeFedConfig lib cfg)
            \<longleftrightarrow> (of_int (RenewDeadline ?e) :: rat) \<le> of_int (RetryPeriod ?e) * JitterFactor lib"
    if h: "JitterFactor lib = 6 / 5 \<and> 0 \<le> RetryPeriod ?e \<and> RetryPeriod ?e < 2 ^ 50"
  proof -
    have j: "jitterDuration lib (RetryPeriod ?e) = \<lfloor>of_int (RetryPeriod ?e) * (6 / 5 :: rat)\<rfloor>"
      using h by (intro jitterDuration_exact) simp_all
    have jf: "JitterFactor lib = 6 / 5"
      using h by (rule conjunct1)
    have "?v \<in> set (ValidateKubeFedConfig lib cfg)
            \<longleftrightarrow> (of_int (RenewDeadline ?e) :: rat) \<le> of_int (RetryPeriod ?e) * (6 / 5)"
      unfolding first j by (rule le_floor_iff)
    then show ?thesis
      unfolding jf .
  qed
  show ?thesis
    using first second third by blast
qed

theorem renewDeadline_violation_iff_witness:
  "(JitterFactor k8s = 6 / 5
    \<and> 0 \<le> RetryPeriod (LeaderElect (ConfigSpec (withLeaderElect tightRenewElect)))
    \<and> RetryPeriod (LeaderElect (ConfigSpec (withLeaderElect tightRenewElect))) < 2 ^ 50)
   \<and> (of_int (RenewDeadline (LeaderElect (ConfigSpec (withLeaderElect tightRenewElect)))) :: rat)
       \<le> of_int (RetryPeriod (LeaderElect (ConfigSpec (withLeaderElect tightRenewElect))))
          * JitterFactor k8s
   \<and> Invalid (Child electPath ''renewDeadline'')
       (DurationVal (RenewDeadline (LeaderElect (ConfigSpec (withLeaderElect tightRenewElect)))))
       ''renewDeadline must be greater than retryPeriod*JitterFactor''
       \<in> set (ValidateKubeFedConfig k8s (withLeaderElect tightRenewElect))"
proof -
  have h: "JitterFactor k8s = 6 / 5
    \<and> 0 \<le> RetryPeriod (LeaderElect (ConfigSpec (withLeaderElect tightRenewElect)))
    \<and> RetryPeriod (LeaderElect (ConfigSpec (withLeaderElect tightRenewElect))) < 2 ^ 50"
    by code_simp
  have c: "(of_int (RenewDeadline (LeaderElect (ConfigSpec (withLeaderElect tightRenewElect)))) :: rat)
       \<le> of_int (RetryPeriod (LeaderElect (ConfigSpec (withLeaderElect tightRenewElect))))
          * JitterFactor k8s"
    by code_simp
  show ?thesis
    using h c renewDeadline_violation_iff [of "withLeaderElect tightRenewElect" k8s] by blast
qed

subsection \<open>C7: the path of a Duplicate violation\<close>

text \<open>
  For the two gates named X, the one Duplicate violation lies on
  \<open>spec.featureGates.name\<close>, a path without a sequence index.
\<close>

theorem duplicate_path_without_index_counterexample:
  "map ErrField (ofType ErrorTypeDuplicate (ValidateKubeFedConfig k8s (withFeatureGates repeatedGates)))
     = [[Named ''spec'', Named ''featureGates'', Named ''name'']]
   \<and> pathIndices [Named ''spec'', Named ''featureGates'', Named ''name''] = []"
  by code_simp

text \<open>
  Claim C7, as the code has it: for every FeatureGates sequence, the Duplicate violations
  of ValidateKubeFedConfig are one for each entry whose Name occurs at an earlier
  position, in the order of these entries, each carrying the repeated Name; all of them
  lie on the one path \<open>spec.featureGates.name\<close>, which mentions no positional index.
\<close>

theorem duplicate_paths_carry_no_index:
  "ofType ErrorTypeDuplicate (ValidateKubeFedConfig lib cfg) =
     map (\<lambda>i. Duplicate (Child gatesPath ''name'') (StrVal (GateName (FeatureGates (ConfigSpec cfg) ! i))))
       (repeatedPositions (FeatureGates (ConfigSpec cfg)))
   \<and> pathIndices (Child gatesPath ''name'') = []"
  by (simp add: ValidateKubeFedConfig_duplicates Child_def NewPath_def)

theorem duplicate_paths_carry_no_index_witness:
  "ofType ErrorTypeDuplicate (ValidateKubeFedConfig k8s (withFeatureGates repeatedGates)) =
     [Duplicate (Child gatesPath ''name'') (StrVal ''X'')]
   \<and> repeatedPositions repeatedGates = [1]"
proof -
  have g: "FeatureGates (ConfigSpec (withFeatureGates repeatedGates)) = repeatedGates"
    by (simp add: withFeatureGates_def)
  have r: "repeatedPositions repeatedGates = [1]"
    by code_simp
  have n: "GateName (repeatedGates ! Suc 0) = ''X''"
    by (simp add: repeatedGates_def)
  show ?thesis
    using duplicate_paths_carry_no_index [of k8s "withFeatureGates repeatedGates"]
    by (simp add: g r n)
qed

subsection \<open>C8: the kind of a descriptor\<close>

text \<open>
  The kinds \<open>A_\<close> and \<open>a_\<close> have the same lower-cased spelling and both fail the
  syntax check, but each violation carries the kind as it was written, so the two lists
  of violations on \<open>kind\<close> differ.
\<close>

theorem kind_violation_echoes_spelling_counterexample:
  "Kind upperKindResource \<noteq> [] \<and> Kind lowerKindResource \<noteq> []
   \<and> ToLower k8s (Kind upperKindResource) = ToLower k8s (Kind lowerKindResource)
   \<and> onPath (Child (NewPath ''targetType'') ''kind'')
         (ValidateAPIResource k8s upperKindResource (NewPath ''targetType''))
     \<noteq> onPath (Child (NewPath ''targetType'') ''kind'')
         (ValidateAPIResource k8s lowerKindResource (NewPath ''targetType''))"
  by code_simp

text \<open>
  Claim C8, as the code has it: for every descriptor with a non-empty Kind,
  ValidateAPIResource applies the DNS-label syntax check to the lower-cased Kind and
  reports a failure with the Kind as it was written; so two Kind values with the same
  lower-cased spelling produce violations on \<open>kind\<close> of the same type, path and
  message, which differ at most in the offending value they carry, and the one is valid
  exactly when the other is; an empty Kind yields a Required violation.
\<close>

theorem kind_checked_in_lower_case:
  "onPath (Child p ''kind'') (ValidateAPIResource lib obj p) =
     (if Kind obj = [] then [Required (Child p ''kind'') []]
      else if IsDNS1035Label lib (ToLower lib (Kind obj)) = [] then []
      else [Invalid (Child p ''kind'') (StrVal (Kind obj))
              (Join (IsDNS1035Label lib (ToLower lib (Kind obj))) '','')])
   \<and> (Kind obj \<noteq> [] \<and> Kind obj' \<noteq> [] \<and> ToLower lib (Kind obj) = ToLower lib (Kind obj') \<longrightarrow>
        map eraseBadValue (onPath (Child p ''kind'') (ValidateAPIResource lib obj p)) =
        map eraseBadValue (onPath (Child p ''kind'') (ValidateAPIResource lib obj' p))
        \<and> (onPath (Child p ''kind'') (ValidateAPIResource lib obj p) = [] \<longleftrightarrow>
             onPath (Child p ''kind'') (ValidateAPIResource lib obj' p) = []))"
  by (simp add: onPath_kind_ValidateAPIResource)

theorem kind_checked_in_lower_case_witness:
  "(Kind podResource \<noteq> [] \<and> Kind lowerPodResource \<noteq> []
    \<and> ToLower k8s (Kind podResource) = ToLower k8s (Kind lowerPodResource))
   \<and> onPath (Child (NewPath ''targetType'') ''kind'')
         (ValidateAPIResource k8s podResource (NewPath ''targetType'')) = []
   \<and> onPath (Child (NewPath ''targetType'') ''kind'')
         (ValidateAPIResource k8s lowerPodResource (NewPath ''targetType'')) = []
   \<and> map eraseBadValue (onPath (Child (NewPath ''targetType'') ''kind'')
         (ValidateAPIResource k8s upperKindResource (NewPath ''targetType''))) =
       map eraseBadValue (onPath (Child (NewPath ''targetType'') ''kind'')
         (ValidateAPIResource k8s lowerKindResource (NewPath ''targetType'')))"
proof -
  have a: "Kind podResource \<noteq> [] \<and> Kind lowerPodResource \<noteq> []
    \<and> ToLower k8s (Kind podResource) = ToLower k8s (Kind lowerPodResource)"
    by code_simp
  have b: "Kind upperKindResource \<noteq> [] \<and> Kind lowerKindResource \<noteq> []
    \<and> ToLower k8s (Kind upperKindResource) = ToLower k8s (Kind lowerKindResource)"
    by code_simp
  have v: "onPath (Child (NewPath ''targetType'') ''kind'')
         (ValidateAPIResource k8s podResource (NewPath ''targetType'')) = []"
    by code_simp
  show ?thesis
    using a b v
      kind_checked_in_lower_case [of "NewPath ''targetType''" k8s podResource lowerPodResource]
      kind_checked_in_lower_case [of "NewPath ''targetType''" k8s upperKindResource lowerKindResource]
    by blast
qed

subsection \<open>C9: ValidateKubeFedCluster\<close>

text \<open>
  Claim C9: for every input object, ValidateKubeFedCluster returns the empty violation
  list: no field of a KubeFedCluster is validated.
\<close>

theorem ValidateKubeFedCluster_empty: "ValidateKubeFedCluster object = []"
  by (simp add: ValidateKubeFedCluster_def)

subsection \<open>C10: a single-label group that is not a DNS subdomain\<close>

text \<open>
  Claim C10: for every FederatedType or StatusType descriptor whose Group is non-empty,
  has fewer than two dot-separated labels and fails the DNS-subdomain syntax check, the
  strict validation returns two violations on the one path \<open>group\<close>: an InvalidValue
  for the missing dot from the strict check, then an InvalidValue for the syntax failure
  from the base descriptor check.
\<close>

theorem strict_group_two_violations:
  assumes "Group obj \<noteq> []"
    and "length (Split (Group obj) (CHR ''.'')) < 2"
    and "IsDNS1123Subdomain lib (Group obj) \<noteq> []"
  shows "onPath (Child p ''group'') (ValidateFederatedAPIResource lib obj p) =
           [Invalid (Child p ''group'') (StrVal (Group obj)) domainWithAtLeastOneDot,
            Invalid (Child p ''group'') (StrVal (Group obj))
              (Join (IsDNS1123Subdomain lib (Group obj)) '','')]
         \<and> onPath (Child p ''group'') (ValidateStatusAPIResource lib obj p) =
           [Invalid (Child p ''group'') (StrVal (Group obj)) domainWithAtLeastOneDot,
            Invalid (Child p ''group'') (StrVal (Group obj))
              (Join (IsDNS1123Subdomain lib (Group obj)) '','')]"
  using assms
  by (simp add: ValidateFederatedAPIResource_def ValidateStatusAPIResource_def
      onPath_group_ValidateAPIResource)

theorem strict_group_two_violations_witness:
  "(Group upperCaseGroupResource \<noteq> []
    \<and> length (Split (Group upperCaseGroupResource) (CHR ''.'')) < 2
    \<and> IsDNS1123Subdomain k8s (Group upperCaseGroupResource) \<noteq> [])
   \<and> onPath (Child (NewPath ''statusType'') ''group'')
         (ValidateFederatedAPIResource k8s upperCaseGroupResource (NewPath ''statusType'')) =
       [Invalid (Child (NewPath ''statusType'') ''group'') (StrVal ''Example'') domainWithAtLeastOneDot,
        Invalid (Child (NewPath ''statusType'') ''group'') (StrVal ''Example'')
          (Join (IsDNS1123Subdomain k8s ''Example'') '','')]"
proof -
  have a: "Group upperCaseGroupResource \<noteq> []"
    by code_simp
  have b: "length (Split (Group upperCaseGroupResource) (CHR ''.'')) < 2"
    by code_simp
  have c: "IsDNS1123Subdomain k8s (Group upperCaseGroupResource) \<noteq> []"
    by code_simp
  have g: "Group upperCaseGroupResource = ''Example''"
    by code_simp
  show ?thesis
    using a b c strict_group_two_violations [OF a b c, of "NewPath ''statusType''"]
    by (simp add: g)
qed

end
